theory Spec2Isabelle
  imports Complex_Main
begin

section \<open>CPong: the swept collision engine of \<^verbatim>\<open>src/main.c\<close>\<close>
text \<open>
  The C program computes on \<^verbatim>\<open>float\<close>. Two models of that arithmetic are used.

  In the first a float is a real number: the arithmetic is exact, so rounding and
  overflow are outside the model. A real number is never a NaN or an infinity, and in
  exact arithmetic on finite values these arise only from a division by zero; so every
  division whose divisor is not a non-zero constant is the checked \<open>fdiv\<close>, a resolver
  returns an \<open>option\<close>, and \<open>None\<close> stands for a run in which the C code divides by
  zero and goes on with a NaN or an infinity, which this model does not follow. The
  statements about the round loop are made in this model.

  In the second a float is an IEEE 754 single-precision value and every operation
  rounds; the resolvers are total there, and a division of zero by zero yields a NaN with
  which the computation goes on, as in C. The statements about the contact point and
  the corrected position of the resolvers, which rounding decides, are made in this
  model. Its functions carry the suffix \<open>_f\<close>.

  The enum \<^verbatim>\<open>Side\<close> and the vertex indices are C integers; they are \<open>int\<close>
  here, so that the \<^verbatim>\<open>default\<close> branches of the geometry queries are part
  of the model.
\<close>

subsection \<open>Constants and macros\<close>

definition WINDOW_WIDTH :: real where "WINDOW_WIDTH = 800"
definition WINDOW_HEIGHT :: real where "WINDOW_HEIGHT = 600"
definition BALL_SIZE :: real where "BALL_SIZE = 20"
definition PADDLE_WIDTH :: real where "PADDLE_WIDTH = 25"
definition PADDLE_HEIGHT :: real where "PADDLE_HEIGHT = 100"
definition PADDLE_SPEED :: real where "PADDLE_SPEED = 8"

text \<open>\<^verbatim>\<open>#define MIN(a, b) (((a)<(b))?(a):(b))\<close> and \<^verbatim>\<open>MAX\<close>.\<close>

definition MIN_m :: "real \<Rightarrow> real \<Rightarrow> real" where
  "MIN_m a b = (if a < b then a else b)"

definition MAX_m :: "real \<Rightarrow> real \<Rightarrow> real" where
  "MAX_m a b = (if a > b then a else b)"

text \<open>Float division; \<open>None\<close> where C yields a NaN or an infinity.\<close>

definition fdiv :: "real \<Rightarrow> real \<Rightarrow> real option" where
  "fdiv a b = (if b = 0 then None else Some (a / b))"

subsection \<open>Data\<close>

type_synonym Side = int

definition TOP :: Side where "TOP = 0"
definition RIGHT :: Side where "RIGHT = 1"
definition BOTTOM :: Side where "BOTTOM = 2"
definition LEFT :: Side where "LEFT = 3"

record Point =
  x :: real
  y :: real

record Line =
  a :: Point
  b :: Point

record Ball =
  position :: Point
  speed :: Point

record Paddle =
  position :: Point
  score :: int

record Collision =
  collides :: int
  position :: Point
  side :: Side

definition pt :: "real \<Rightarrow> real \<Rightarrow> Point" where
  "pt u v = \<lparr>x = u, y = v\<rparr>"

subsection \<open>Geometry queries\<close>

definition Ball_getVertex :: "Ball \<Rightarrow> int \<Rightarrow> Point" where
  "Ball_getVertex ball vertex =
     (if vertex = 0 then Ball.position ball
      else if vertex = 1 then pt (x (Ball.position ball) + BALL_SIZE) (y (Ball.position ball))
      else if vertex = 2 then
        pt (x (Ball.position ball) + BALL_SIZE) (y (Ball.position ball) + BALL_SIZE)
      else if vertex = 3 then pt (x (Ball.position ball)) (y (Ball.position ball) + BALL_SIZE)
      else pt 0 0)"

definition Ball_getSide :: "Ball \<Rightarrow> Side \<Rightarrow> Line" where
  "Ball_getSide ball sd =
     (if sd = TOP then \<lparr>a = Ball_getVertex ball 0, b = Ball_getVertex ball 1\<rparr>
      else if sd = RIGHT then \<lparr>a = Ball_getVertex ball 1, b = Ball_getVertex ball 2\<rparr>
      else if sd = BOTTOM then \<lparr>a = Ball_getVertex ball 2, b = Ball_getVertex ball 3\<rparr>
      else if sd = LEFT then \<lparr>a = Ball_getVertex ball 3, b = Ball_getVertex ball 0\<rparr>
      else \<lparr>a = pt 0 0, b = pt 0 0\<rparr>)"

definition Ball_getBound :: "Ball \<Rightarrow> Side \<Rightarrow> real" where
  "Ball_getBound ball sd =
     (if sd = TOP then y (Ball.position ball)
      else if sd = RIGHT then x (Ball.position ball) + BALL_SIZE
      else if sd = BOTTOM then y (Ball.position ball) + BALL_SIZE
      else if sd = LEFT then x (Ball.position ball)
      else 0)"

definition Paddle_getVertex :: "Paddle \<Rightarrow> int \<Rightarrow> Point" where
  "Paddle_getVertex paddle vertex =
     (if vertex = 0 then Paddle.position paddle
      else if vertex = 1 then
        pt (x (Paddle.position paddle) + PADDLE_WIDTH) (y (Paddle.position paddle))
      else if vertex = 2 then
        pt (x (Paddle.position paddle) + PADDLE_WIDTH) (y (Paddle.position paddle) + PADDLE_HEIGHT)
      else if vertex = 3 then
        pt (x (Paddle.position paddle)) (y (Paddle.position paddle) + PADDLE_HEIGHT)
      else pt 0 0)"

definition Paddle_getSide :: "Paddle \<Rightarrow> Side \<Rightarrow> Line" where
  "Paddle_getSide paddle sd =
     (if sd = TOP then \<lparr>a = Paddle_getVertex paddle 0, b = Paddle_getVertex paddle 1\<rparr>
      else if sd = RIGHT then \<lparr>a = Paddle_getVertex paddle 1, b = Paddle_getVertex paddle 2\<rparr>
      else if sd = BOTTOM then \<lparr>a = Paddle_getVertex paddle 2, b = Paddle_getVertex paddle 3\<rparr>
      else if sd = LEFT then \<lparr>a = Paddle_getVertex paddle 3, b = Paddle_getVertex paddle 0\<rparr>
      else \<lparr>a = pt 0 0, b = pt 0 0\<rparr>)"

definition Paddle_getBound :: "Paddle \<Rightarrow> Side \<Rightarrow> real" where
  "Paddle_getBound paddle sd =
     (if sd = TOP then y (Paddle.position paddle)
      else if sd = RIGHT then x (Paddle.position paddle) + PADDLE_WIDTH
      else if sd = BOTTOM then y (Paddle.position paddle) + PADDLE_HEIGHT
      else if sd = LEFT then x (Paddle.position paddle)
      else 0)"

subsection \<open>Distance\<close>

text \<open>
  \<^verbatim>\<open>return sqrt(pow(b.x - a.x, 2) + (b.y - a.y, 2));\<close>
  The second summand is a parenthesised comma expression: \<^verbatim>\<open>b.y - a.y\<close> is
  evaluated and dropped, and the value of the summand is the constant 2.
\<close>

definition Point_getDistance :: "Point \<Rightarrow> Point \<Rightarrow> real" where
  "Point_getDistance p q = sqrt ((x q - x p) ^ 2 + 2)"

text \<open>The distance the comment above the C function announces, for comparison.\<close>

definition euclidean_distance :: "Point \<Rightarrow> Point \<Rightarrow> real" where
  "euclidean_distance p q = sqrt ((x q - x p) ^ 2 + (y q - y p) ^ 2)"

subsection \<open>Parts shared by the two resolvers\<close>

text \<open>\<^verbatim>\<open>(Collision){0, {0.0f, 0.0f}, TOP}\<close>\<close>

definition noCollision :: Collision where
  "noCollision = \<lparr>collides = 0, position = pt 0 0, side = TOP\<rparr>"

text \<open>
  The last block of both resolvers, which writes the out-parameter
  \<^verbatim>\<open>newPosition\<close> when a collision is returned and leaves it alone otherwise.
\<close>

definition correctedPosition :: "Collision \<Rightarrow> int \<Rightarrow> Point \<Rightarrow> Point" where
  "correctedPosition returnVal collisionVertex newPosition =
     (if collides returnVal \<noteq> 0 then
        (let originReference = \<lparr>Ball.position = Collision.position returnVal, speed = pt 0 0\<rparr>;
             backToOrigin = Ball_getVertex originReference collisionVertex
         in pt (x (Collision.position returnVal)
                  - (x backToOrigin - x (Collision.position returnVal)))
               (y (Collision.position returnVal)
                  - (y backToOrigin - y (Collision.position returnVal))))
      else newPosition)"

subsection \<open>The paddle resolver\<close>

text \<open>
  The two \<^verbatim>\<open>for\<close> loops run over the two entries of
  \<^verbatim>\<open>horizontalVertices\<close> and \<^verbatim>\<open>verticalVertices\<close>; they are recursions
  over these lists. The loop state is the candidate collision and the entry of
  \<^verbatim>\<open>collisionVertices\<close> the loop writes. A \<^verbatim>\<open>break\<close> returns the state, a
  \<^verbatim>\<open>continue\<close> is the recursive call.
\<close>

fun horizontalTests ::
  "Ball \<Rightarrow> Paddle \<Rightarrow> real \<Rightarrow> Side \<Rightarrow> int list \<Rightarrow> Collision \<times> int \<Rightarrow> Collision \<times> int" where
  "horizontalTests ball paddle slope paddleSide [] st = st"
| "horizontalTests ball paddle slope paddleSide (v # vs) (horizontalCol, cv) =
     (let vertexPos = Ball_getVertex ball v;
          nextPos = pt (x vertexPos + x (speed ball)) (y vertexPos + y (speed ball));
          ballMinX = MIN_m (x vertexPos) (x nextPos);
          ballMaxX = MAX_m (x vertexPos) (x nextPos);
          paddleX = Paddle_getBound paddle paddleSide
      in if \<not> (paddleX \<ge> ballMinX \<and> paddleX \<le> ballMaxX) then (horizontalCol, v)
         else
          (let yIncp = y vertexPos - (x vertexPos * slope);
               paddleMinY = Paddle_getBound paddle TOP;
               paddleMaxY = Paddle_getBound paddle BOTTOM;
               ballColY = (paddleX * slope) + yIncp
           in if \<not> (ballColY \<ge> paddleMinY \<and> ballColY \<le> paddleMaxY)
              then horizontalTests ball paddle slope paddleSide vs (horizontalCol, v)
              else (\<lparr>collides = 1, position = pt paddleX ballColY, side = paddleSide\<rparr>, v)))"

fun verticalTests ::
  "Ball \<Rightarrow> Paddle \<Rightarrow> real \<Rightarrow> Side \<Rightarrow> int list \<Rightarrow> Collision \<times> int \<Rightarrow> (Collision \<times> int) option"
  where
  "verticalTests ball paddle slope paddleSide [] st = Some st"
| "verticalTests ball paddle slope paddleSide (v # vs) (verticalCol, cv) =
     (if slope = 0 then Some (verticalCol, cv)
      else
       (let vertexPos = Ball_getVertex ball v;
            nextPos = pt (x vertexPos + x (speed ball)) (y vertexPos + y (speed ball));
            ballMinY = MIN_m (y vertexPos) (y nextPos);
            ballMaxY = MAX_m (y vertexPos) (y nextPos);
            paddleY = Paddle_getBound paddle paddleSide
        in if \<not> (paddleY \<ge> ballMinY \<and> paddleY \<le> ballMaxY) then Some (verticalCol, v)
           else
            (let yIncp = y vertexPos - (x vertexPos * slope);
                 paddleMinX = Paddle_getBound paddle LEFT;
                 paddleMaxX = Paddle_getBound paddle RIGHT
             in case fdiv (paddleY - yIncp) slope of
                  None \<Rightarrow> None
                | Some ballColX \<Rightarrow>
                    if \<not> (ballColX \<ge> paddleMinX \<and> ballColX \<le> paddleMaxX)
                    then verticalTests ball paddle slope paddleSide vs (verticalCol, v)
                    else Some (\<lparr>collides = 1, position = pt ballColX paddleY,
                                side = paddleSide\<rparr>, v))))"

text \<open>
  The broad-phase rejects of the two \<^verbatim>\<open>if\<close>/\<^verbatim>\<open>else\<close> blocks that
  choose the paddle edges.
\<close>

definition paddleRejectX :: "Ball \<Rightarrow> Paddle \<Rightarrow> bool" where
  "paddleRejectX ball paddle =
     (if x (speed ball) \<ge> 0 then Ball_getBound ball LEFT > Paddle_getBound paddle RIGHT
      else Ball_getBound ball RIGHT < Paddle_getBound paddle LEFT)"

definition paddleRejectY :: "Ball \<Rightarrow> Paddle \<Rightarrow> bool" where
  "paddleRejectY ball paddle =
     (if y (speed ball) \<ge> 0 then Ball_getBound ball TOP > Paddle_getBound paddle BOTTOM
      else Ball_getBound ball BOTTOM < Paddle_getBound paddle TOP)"

text \<open>
  The block that assigns the closest collision to \<^verbatim>\<open>returnVal\<close>; the result
  is \<^verbatim>\<open>returnVal\<close> and the local \<^verbatim>\<open>collisionVertex\<close>.
\<close>

definition closestPaddleCollision ::
  "Ball \<Rightarrow> Collision \<times> int \<Rightarrow> Collision \<times> int \<Rightarrow> Collision \<times> int" where
  "closestPaddleCollision ball hc vc =
     (let horizontalCol = fst hc; verticalCol = fst vc in
      if collides horizontalCol \<noteq> 0 \<and> collides verticalCol \<noteq> 0 then
        (let returnIndex =
               (if Point_getDistance (Ball_getVertex ball (snd hc))
                       (Collision.position horizontalCol)
                     < Point_getDistance (Ball_getVertex ball (snd vc))
                       (Collision.position verticalCol)
                then 0 else 1 :: int)
         in (if returnIndex \<noteq> 0 then verticalCol else horizontalCol,
             if returnIndex = 0 then snd hc else snd vc))
      else if collides horizontalCol \<noteq> 0 then (horizontalCol, snd hc)
      else if collides verticalCol \<noteq> 0 then (verticalCol, snd vc)
      else (noCollision, 0))"

text \<open>
  \<open>getPaddleCollision_v\<close> is the C function with its local
  \<^verbatim>\<open>collisionVertex\<close> as a third result (0, its initial value, at the returns
  that come before its declaration). \<^verbatim>\<open>collisionVertices[1]\<close> is uninitialised
  in C when the slope is zero; it is 0 here, and it is not read in that case.
  \<^verbatim>\<open>paddleEdges\<close> is written and never read, and is left out.
\<close>

definition getPaddleCollision_v ::
  "Ball \<Rightarrow> Paddle \<Rightarrow> Point \<Rightarrow> (Collision \<times> Point \<times> int) option" where
  "getPaddleCollision_v ball paddle newPosition =
     (let returnVal = noCollision;
          slopeN = y (speed ball);
          slopeD = x (speed ball)
      in if slopeD = 0 then Some (returnVal, newPosition, 0)
         else case fdiv slopeN slopeD of
           None \<Rightarrow> None
         | Some slope \<Rightarrow>
            if paddleRejectX ball paddle then Some (returnVal, newPosition, 0)
            else if paddleRejectY ball paddle then Some (returnVal, newPosition, 0)
            else
             (let horizontalVertices = (if x (speed ball) \<ge> 0 then [1, 2] else [0, 3]);
                  paddleSides0 = (if x (speed ball) \<ge> 0 then LEFT else RIGHT);
                  verticalVertices = (if y (speed ball) \<ge> 0 then [2, 3] else [0, 1]);
                  paddleSides1 = (if y (speed ball) \<ge> 0 then TOP else BOTTOM);
                  hc = horizontalTests ball paddle slope paddleSides0 horizontalVertices
                         (noCollision, 0)
              in case verticalTests ball paddle slope paddleSides1 verticalVertices
                        (noCollision, 0) of
                   None \<Rightarrow> None
                 | Some vc \<Rightarrow>
                    (let rc = closestPaddleCollision ball hc vc
                     in Some (fst rc, correctedPosition (fst rc) (snd rc) newPosition,
                              snd rc))))"

definition getPaddleCollision :: "Ball \<Rightarrow> Paddle \<Rightarrow> Point \<Rightarrow> (Collision \<times> Point) option" where
  "getPaddleCollision ball paddle newPosition =
     map_option (\<lambda>(c, np, v). (c, np)) (getPaddleCollision_v ball paddle newPosition)"

subsection \<open>The wall resolver\<close>

definition wallHorizontalSide :: "Ball \<Rightarrow> Side" where
  "wallHorizontalSide ball = (if x (speed ball) \<ge> 0 then RIGHT else LEFT)"

definition wallHorizontalBound :: "Ball \<Rightarrow> real" where
  "wallHorizontalBound ball = (if x (speed ball) \<ge> 0 then WINDOW_WIDTH else 0)"

definition wallVerticalSide :: "Ball \<Rightarrow> Side" where
  "wallVerticalSide ball = (if y (speed ball) \<ge> 0 then BOTTOM else TOP)"

definition wallVerticalBound :: "Ball \<Rightarrow> real" where
  "wallVerticalBound ball = (if y (speed ball) \<ge> 0 then WINDOW_HEIGHT else 0)"

definition testedVertex :: "Ball \<Rightarrow> int" where
  "testedVertex ball =
     (if wallHorizontalSide ball = RIGHT \<and> wallVerticalSide ball = BOTTOM then 2
      else if wallHorizontalSide ball = LEFT \<and> wallVerticalSide ball = BOTTOM then 3
      else if wallHorizontalSide ball = RIGHT \<and> wallVerticalSide ball = TOP then 1
      else 0)"

text \<open>
  The two candidate collisions of the tested vertex, for the slope \<open>slope\<close>: the
  crossing of the vertical wall ahead (\<^verbatim>\<open>horizontalCol\<close>) and of the horizontal
  wall ahead (\<^verbatim>\<open>verticalCol\<close>). The second divides by the slope, which the C code
  does not test here.
\<close>

definition wallHorizontalCol :: "Ball \<Rightarrow> real \<Rightarrow> Collision" where
  "wallHorizontalCol ball slope =
     (let horizontalBound = wallHorizontalBound ball;
          vertexPos = Ball_getVertex ball (testedVertex ball);
          nextPos = pt (x vertexPos + x (speed ball)) (y vertexPos + y (speed ball));
          yIncp = y vertexPos - (x vertexPos * slope)
      in if MIN_m (x vertexPos) (x nextPos) \<le> horizontalBound \<and>
            MAX_m (x vertexPos) (x nextPos) \<ge> horizontalBound
         then \<lparr>collides = 1,
               position = pt horizontalBound ((slope * horizontalBound) + yIncp),
               side = wallHorizontalSide ball\<rparr>
         else noCollision)"

definition wallVerticalCol :: "Ball \<Rightarrow> real \<Rightarrow> Collision option" where
  "wallVerticalCol ball slope =
     (let verticalBound = wallVerticalBound ball;
          vertexPos = Ball_getVertex ball (testedVertex ball);
          nextPos = pt (x vertexPos + x (speed ball)) (y vertexPos + y (speed ball));
          yIncp = y vertexPos - (x vertexPos * slope)
      in if MIN_m (y vertexPos) (y nextPos) \<le> verticalBound \<and>
            MAX_m (y vertexPos) (y nextPos) \<ge> verticalBound
         then (case fdiv (verticalBound - yIncp) slope of
                 None \<Rightarrow> None
               | Some cx \<Rightarrow>
                   Some \<lparr>collides = 1, position = pt cx verticalBound,
                         side = wallVerticalSide ball\<rparr>)
         else Some noCollision)"

text \<open>The choice between the two candidates.\<close>

definition closestWallCollision :: "Point \<Rightarrow> Collision \<Rightarrow> Collision \<Rightarrow> Collision" where
  "closestWallCollision vertexPos horizontalCol verticalCol =
     (if collides horizontalCol \<noteq> 0 \<and> collides verticalCol \<noteq> 0 then
        (if Point_getDistance vertexPos (Collision.position horizontalCol)
              < Point_getDistance vertexPos (Collision.position verticalCol)
         then horizontalCol else verticalCol)
      else if collides horizontalCol \<noteq> 0 then horizontalCol
      else if collides verticalCol \<noteq> 0 then verticalCol
      else noCollision)"

definition getWallCollision :: "Ball \<Rightarrow> Point \<Rightarrow> (Collision \<times> Point) option" where
  "getWallCollision ball newPosition =
     (let returnVal = noCollision;
          slopeN = y (speed ball);
          slopeD = x (speed ball)
      in if slopeD = 0 then Some (returnVal, newPosition)
         else case fdiv slopeN slopeD of
           None \<Rightarrow> None
         | Some slope \<Rightarrow>
            (case wallVerticalCol ball slope of
               None \<Rightarrow> None
             | Some verticalCol \<Rightarrow>
                (let returnVal =
                       closestWallCollision (Ball_getVertex ball (testedVertex ball))
                         (wallHorizontalCol ball slope) verticalCol
                 in Some (returnVal,
                          correctedPosition returnVal (testedVertex ball) newPosition))))"

subsection \<open>Single-precision arithmetic\<close>

text \<open>
  Rounding to the nearest value of a binary format with \<open>p\<close> significand bits and
  least normal exponent \<open>emn\<close>, ties to the even significand. The quantum of a real
  number is the spacing of the format at its magnitude; below \<open>2 powi emn\<close> the spacing
  stays that of the least binade (subnormal numbers). \<open>fl\<close> rounds with an unbounded
  exponent range; overflow is decided on its result.
\<close>

definition round_even :: "real \<Rightarrow> int" where
  "round_even z =
     (let n = \<lfloor>z\<rfloor>
      in if z - of_int n < 1 / 2 then n
         else if 1 / 2 < z - of_int n then n + 1
         else if even n then n else n + 1)"

definition quantum :: "nat \<Rightarrow> int \<Rightarrow> real \<Rightarrow> real" where
  "quantum p emn r = 2 powi (max \<lfloor>log 2 \<bar>r\<bar>\<rfloor> emn - int p + 1)"

definition fl :: "nat \<Rightarrow> int \<Rightarrow> real \<Rightarrow> real" where
  "fl p emn r = (if r = 0 then 0 else of_int (round_even (r / quantum p emn r)) * quantum p emn r)"

text \<open>
  The values of the format: a non-zero real number or +0 (\<open>Fin\<close>), -0, the two
  infinities and NaN (one NaN; its sign and payload play no role in the program).
  \<open>rnd\<close> is the rounding of a real result; the flag gives the sign of a zero result.
  \<^verbatim>\<open>float\<close> is binary32 and \<^verbatim>\<open>double\<close> is binary64.
\<close>

datatype fval = Fin real | NegZero | PInf | NInf | NaN

definition rnd :: "nat \<Rightarrow> int \<Rightarrow> int \<Rightarrow> bool \<Rightarrow> real \<Rightarrow> fval" where
  "rnd p emn emx neg r =
     (let q = fl p emn r
      in if 2 powi (emx + 1) \<le> \<bar>q\<bar> then (if 0 < q then PInf else NInf)
         else if q = 0 then (if neg then NegZero else Fin 0)
         else Fin q)"

definition single :: "bool \<Rightarrow> real \<Rightarrow> fval" where
  "single = rnd 24 (- 126) 127"

definition double :: "bool \<Rightarrow> real \<Rightarrow> fval" where
  "double = rnd 53 (- 1022) 1023"

definition is_inf :: "fval \<Rightarrow> bool" where
  "is_inf v = (v = PInf \<or> v = NInf)"

definition is_zero :: "fval \<Rightarrow> bool" where
  "is_zero v = (v = Fin 0 \<or> v = NegZero)"

definition is_finite :: "fval \<Rightarrow> bool" where
  "is_finite v = (case v of Fin r \<Rightarrow> True | NegZero \<Rightarrow> True | _ \<Rightarrow> False)"

definition val :: "fval \<Rightarrow> real" where
  "val v = (case v of Fin r \<Rightarrow> r | _ \<Rightarrow> 0)"

definition signbit :: "fval \<Rightarrow> bool" where
  "signbit v = (case v of Fin r \<Rightarrow> r < 0 | NegZero \<Rightarrow> True | NInf \<Rightarrow> True | _ \<Rightarrow> False)"

definition signed_inf :: "bool \<Rightarrow> fval" where
  "signed_inf neg = (if neg then NInf else PInf)"

definition signed_zero :: "bool \<Rightarrow> fval" where
  "signed_zero neg = (if neg then NegZero else Fin 0)"

definition fneg :: "fval \<Rightarrow> fval" where
  "fneg v = (case v of Fin r \<Rightarrow> if r = 0 then NegZero else Fin (- r) | NegZero \<Rightarrow> Fin 0
             | PInf \<Rightarrow> NInf | NInf \<Rightarrow> PInf | NaN \<Rightarrow> NaN)"

definition add_g :: "(bool \<Rightarrow> real \<Rightarrow> fval) \<Rightarrow> fval \<Rightarrow> fval \<Rightarrow> fval" where
  "add_g rd v w =
     (if v = NaN \<or> w = NaN then NaN
      else if is_inf v \<and> is_inf w then (if v = w then v else NaN)
      else if is_inf v then v
      else if is_inf w then w
      else if val v + val w = 0 then (if v = NegZero \<and> w = NegZero then NegZero else Fin 0)
      else rd (val v + val w < 0) (val v + val w))"

definition mul_g :: "(bool \<Rightarrow> real \<Rightarrow> fval) \<Rightarrow> fval \<Rightarrow> fval \<Rightarrow> fval" where
  "mul_g rd v w =
     (if v = NaN \<or> w = NaN then NaN
      else if (is_inf v \<and> is_zero w) \<or> (is_zero v \<and> is_inf w) then NaN
      else if is_inf v \<or> is_inf w then signed_inf (signbit v \<noteq> signbit w)
      else rd (signbit v \<noteq> signbit w) (val v * val w))"

definition div_g :: "(bool \<Rightarrow> real \<Rightarrow> fval) \<Rightarrow> fval \<Rightarrow> fval \<Rightarrow> fval" where
  "div_g rd v w =
     (if v = NaN \<or> w = NaN then NaN
      else if (is_inf v \<and> is_inf w) \<or> (is_zero v \<and> is_zero w) then NaN
      else if is_inf v then signed_inf (signbit v \<noteq> signbit w)
      else if is_inf w then signed_zero (signbit v \<noteq> signbit w)
      else if is_zero w then signed_inf (signbit v \<noteq> signbit w)
      else rd (signbit v \<noteq> signbit w) (val v / val w))"

definition sqrt_g :: "(bool \<Rightarrow> real \<Rightarrow> fval) \<Rightarrow> fval \<Rightarrow> fval" where
  "sqrt_g rd v =
     (case v of Fin r \<Rightarrow> if r < 0 then NaN else rd False (sqrt r)
      | NegZero \<Rightarrow> NegZero | PInf \<Rightarrow> PInf | NInf \<Rightarrow> NaN | NaN \<Rightarrow> NaN)"

definition fadd :: "fval \<Rightarrow> fval \<Rightarrow> fval" where "fadd = add_g single"
definition fsub :: "fval \<Rightarrow> fval \<Rightarrow> fval" where "fsub v w = add_g single v (fneg w)"
definition fmul :: "fval \<Rightarrow> fval \<Rightarrow> fval" where "fmul = mul_g single"
definition fdivide :: "fval \<Rightarrow> fval \<Rightarrow> fval" where "fdivide = div_g single"

definition to_single :: "fval \<Rightarrow> fval" where
  "to_single v = (case v of Fin r \<Rightarrow> single (r < 0) r | _ \<Rightarrow> v)"

definition fle :: "fval \<Rightarrow> fval \<Rightarrow> bool" where
  "fle v w =
     (v \<noteq> NaN \<and> w \<noteq> NaN \<and>
      (v = NInf \<or> w = PInf \<or> (is_finite v \<and> is_finite w \<and> val v \<le> val w)))"

definition flt :: "fval \<Rightarrow> fval \<Rightarrow> bool" where
  "flt v w =
     (v \<noteq> NaN \<and> w \<noteq> NaN \<and>
      ((v = NInf \<and> w \<noteq> NInf) \<or> (w = PInf \<and> v \<noteq> PInf) \<or>
       (is_finite v \<and> is_finite w \<and> val v < val w)))"

definition feq :: "fval \<Rightarrow> fval \<Rightarrow> bool" where
  "feq v w =
     (v \<noteq> NaN \<and> w \<noteq> NaN \<and>
      ((v = PInf \<and> w = PInf) \<or> (v = NInf \<and> w = NInf) \<or>
       (is_finite v \<and> is_finite w \<and> val v = val w)))"

subsection \<open>The resolvers in single precision\<close>

text \<open>
  The same functions as above, statement by statement, on single-precision values:
  each \<^verbatim>\<open>+\<close>, \<^verbatim>\<open>-\<close>, \<^verbatim>\<open>*\<close> and \<^verbatim>\<open>/\<close> on floats
  is one rounded operation (no excess precision, no fused multiply-add), and
  \<^verbatim>\<open><\<close>, \<^verbatim>\<open><=\<close>, \<^verbatim>\<open>==\<close> are the IEEE comparisons, false on a NaN.
  \<^verbatim>\<open>Point_getDistance\<close> subtracts in single precision, computes
  \<^verbatim>\<open>pow\<close>, the sum and \<^verbatim>\<open>sqrt\<close> in double precision and converts
  the result to \<^verbatim>\<open>float\<close>; the square of a float is exact in double
  precision. Nothing is left undefined here: the vertical tests of the wall resolver
  divide by the slope whatever its value, and the result is a resolver's return value
  together with the out-parameter \<^verbatim>\<open>newPosition\<close>.
\<close>

record FPoint =
  fx :: fval
  fy :: fval

record FBall =
  fposition :: FPoint
  fspeed :: FPoint

record FPaddle =
  pposition :: FPoint
  pscore :: int

record FCollision =
  fcollides :: int
  fcontact :: FPoint
  fside :: Side

definition fpt :: "fval \<Rightarrow> fval \<Rightarrow> FPoint" where
  "fpt u v = \<lparr>fx = u, fy = v\<rparr>"

definition F_WINDOW_WIDTH :: fval where "F_WINDOW_WIDTH = Fin 800"
definition F_WINDOW_HEIGHT :: fval where "F_WINDOW_HEIGHT = Fin 600"
definition F_BALL_SIZE :: fval where "F_BALL_SIZE = Fin 20"
definition F_PADDLE_WIDTH :: fval where "F_PADDLE_WIDTH = Fin 25"
definition F_PADDLE_HEIGHT :: fval where "F_PADDLE_HEIGHT = Fin 100"

definition MIN_f :: "fval \<Rightarrow> fval \<Rightarrow> fval" where
  "MIN_f u v = (if flt u v then u else v)"

definition MAX_f :: "fval \<Rightarrow> fval \<Rightarrow> fval" where
  "MAX_f u v = (if flt v u then u else v)"

definition Ball_getVertex_f :: "FBall \<Rightarrow> int \<Rightarrow> FPoint" where
  "Ball_getVertex_f ball vertex =
     (if vertex = 0 then fposition ball
      else if vertex = 1 then fpt (fadd (fx (fposition ball)) F_BALL_SIZE) (fy (fposition ball))
      else if vertex = 2 then
        fpt (fadd (fx (fposition ball)) F_BALL_SIZE) (fadd (fy (fposition ball)) F_BALL_SIZE)
      else if vertex = 3 then fpt (fx (fposition ball)) (fadd (fy (fposition ball)) F_BALL_SIZE)
      else fpt (Fin 0) (Fin 0))"

definition Ball_getBound_f :: "FBall \<Rightarrow> Side \<Rightarrow> fval" where
  "Ball_getBound_f ball sd =
     (if sd = TOP then fy (fposition ball)
      else if sd = RIGHT then fadd (fx (fposition ball)) F_BALL_SIZE
      else if sd = BOTTOM then fadd (fy (fposition ball)) F_BALL_SIZE
      else if sd = LEFT then fx (fposition ball)
      else Fin 0)"

definition Paddle_getBound_f :: "FPaddle \<Rightarrow> Side \<Rightarrow> fval" where
  "Paddle_getBound_f paddle sd =
     (if sd = TOP then fy (pposition paddle)
      else if sd = RIGHT then fadd (fx (pposition paddle)) F_PADDLE_WIDTH
      else if sd = BOTTOM then fadd (fy (pposition paddle)) F_PADDLE_HEIGHT
      else if sd = LEFT then fx (pposition paddle)
      else Fin 0)"

definition Point_getDistance_f :: "FPoint \<Rightarrow> FPoint \<Rightarrow> fval" where
  "Point_getDistance_f p q =
     (let d = fsub (fx q) (fx p)
      in to_single (sqrt_g double (add_g double (mul_g double d d) (Fin 2))))"

definition noCollision_f :: FCollision where
  "noCollision_f = \<lparr>fcollides = 0, fcontact = fpt (Fin 0) (Fin 0), fside = TOP\<rparr>"

definition correctedPosition_f :: "FCollision \<Rightarrow> int \<Rightarrow> FPoint \<Rightarrow> FPoint" where
  "correctedPosition_f returnVal collisionVertex newPosition =
     (if fcollides returnVal \<noteq> 0 then
        (let originReference = \<lparr>fposition = fcontact returnVal, fspeed = fpt (Fin 0) (Fin 0)\<rparr>;
             backToOrigin = Ball_getVertex_f originReference collisionVertex
         in fpt (fsub (fx (fcontact returnVal))
                   (fsub (fx backToOrigin) (fx (fcontact returnVal))))
                (fsub (fy (fcontact returnVal))
                   (fsub (fy backToOrigin) (fy (fcontact returnVal)))))
      else newPosition)"

fun horizontalTests_f ::
  "FBall \<Rightarrow> FPaddle \<Rightarrow> fval \<Rightarrow> Side \<Rightarrow> int list \<Rightarrow> FCollision \<times> int \<Rightarrow> FCollision \<times> int" where
  "horizontalTests_f ball paddle slope paddleSide [] st = st"
| "horizontalTests_f ball paddle slope paddleSide (v # vs) (horizontalCol, cv) =
     (let vertexPos = Ball_getVertex_f ball v;
          nextPos = fpt (fadd (fx vertexPos) (fx (fspeed ball)))
                        (fadd (fy vertexPos) (fy (fspeed ball)));
          ballMinX = MIN_f (fx vertexPos) (fx nextPos);
          ballMaxX = MAX_f (fx vertexPos) (fx nextPos);
          paddleX = Paddle_getBound_f paddle paddleSide
      in if \<not> (fle ballMinX paddleX \<and> fle paddleX ballMaxX) then (horizontalCol, v)
         else
          (let yIncp = fsub (fy vertexPos) (fmul (fx vertexPos) slope);
               paddleMinY = Paddle_getBound_f paddle TOP;
               paddleMaxY = Paddle_getBound_f paddle BOTTOM;
               ballColY = fadd (fmul paddleX slope) yIncp
           in if \<not> (fle paddleMinY ballColY \<and> fle ballColY paddleMaxY)
              then horizontalTests_f ball paddle slope paddleSide vs (horizontalCol, v)
              else (\<lparr>fcollides = 1, fcontact = fpt paddleX ballColY, fside = paddleSide\<rparr>, v)))"

fun verticalTests_f ::
  "FBall \<Rightarrow> FPaddle \<Rightarrow> fval \<Rightarrow> Side \<Rightarrow> int list \<Rightarrow> FCollision \<times> int \<Rightarrow> FCollision \<times> int" where
  "verticalTests_f ball paddle slope paddleSide [] st = st"
| "verticalTests_f ball paddle slope paddleSide (v # vs) (verticalCol, cv) =
     (if feq slope (Fin 0) then (verticalCol, cv)
      else
       (let vertexPos = Ball_getVertex_f ball v;
            nextPos = fpt (fadd (fx vertexPos) (fx (fspeed ball)))
                          (fadd (fy vertexPos) (fy (fspeed ball)));
            ballMinY = MIN_f (fy vertexPos) (fy nextPos);
            ballMaxY = MAX_f (fy vertexPos) (fy nextPos);
            paddleY = Paddle_getBound_f paddle paddleSide
        in if \<not> (fle ballMinY paddleY \<and> fle paddleY ballMaxY) then (verticalCol, v)
           else
            (let yIncp = fsub (fy vertexPos) (fmul (fx vertexPos) slope);
                 paddleMinX = Paddle_getBound_f paddle LEFT;
                 paddleMaxX = Paddle_getBound_f paddle RIGHT;
                 ballColX = fdivide (fsub paddleY yIncp) slope
             in if \<not> (fle paddleMinX ballColX \<and> fle ballColX paddleMaxX)
                then verticalTests_f ball paddle slope paddleSide vs (verticalCol, v)
                else (\<lparr>fcollides = 1, fcontact = fpt ballColX paddleY, fside = paddleSide\<rparr>,
                      v))))"

definition paddleRejectX_f :: "FBall \<Rightarrow> FPaddle \<Rightarrow> bool" where
  "paddleRejectX_f ball paddle =
     (if fle (Fin 0) (fx (fspeed ball))
      then flt (Paddle_getBound_f paddle RIGHT) (Ball_getBound_f ball LEFT)
      else flt (Ball_getBound_f ball RIGHT) (Paddle_getBound_f paddle LEFT))"

definition paddleRejectY_f :: "FBall \<Rightarrow> FPaddle \<Rightarrow> bool" where
  "paddleRejectY_f ball paddle =
     (if fle (Fin 0) (fy (fspeed ball))
      then flt (Paddle_getBound_f paddle BOTTOM) (Ball_getBound_f ball TOP)
      else flt (Ball_getBound_f ball BOTTOM) (Paddle_getBound_f paddle TOP))"

definition closestPaddleCollision_f ::
  "FBall \<Rightarrow> FCollision \<times> int \<Rightarrow> FCollision \<times> int \<Rightarrow> FCollision \<times> int" where
  "closestPaddleCollision_f ball hc vc =
     (let horizontalCol = fst hc; verticalCol = fst vc in
      if fcollides horizontalCol \<noteq> 0 \<and> fcollides verticalCol \<noteq> 0 then
        (let returnIndex =
               (if flt (Point_getDistance_f (Ball_getVertex_f ball (snd hc))
                          (fcontact horizontalCol))
                       (Point_getDistance_f (Ball_getVertex_f ball (snd vc))
                          (fcontact verticalCol))
                then 0 else 1 :: int)
         in (if returnIndex \<noteq> 0 then verticalCol else horizontalCol,
             if returnIndex = 0 then snd hc else snd vc))
      else if fcollides horizontalCol \<noteq> 0 then (horizontalCol, snd hc)
      else if fcollides verticalCol \<noteq> 0 then (verticalCol, snd vc)
      else (noCollision_f, 0))"

definition getPaddleCollision_vf ::
  "FBall \<Rightarrow> FPaddle \<Rightarrow> FPoint \<Rightarrow> FCollision \<times> FPoint \<times> int" where
  "getPaddleCollision_vf ball paddle newPosition =
     (let returnVal = noCollision_f;
          slopeN = fy (fspeed ball);
          slopeD = fx (fspeed ball)
      in if feq slopeD (Fin 0) then (returnVal, newPosition, 0)
         else
          (let slope = fdivide slopeN slopeD
           in if paddleRejectX_f ball paddle then (returnVal, newPosition, 0)
              else if paddleRejectY_f ball paddle then (returnVal, newPosition, 0)
              else
               (let horizontalVertices =
                      (if fle (Fin 0) (fx (fspeed ball)) then [1, 2] else [0, 3]);
                    paddleSides0 = (if fle (Fin 0) (fx (fspeed ball)) then LEFT else RIGHT);
                    verticalVertices =
                      (if fle (Fin 0) (fy (fspeed ball)) then [2, 3] else [0, 1]);
                    paddleSides1 = (if fle (Fin 0) (fy (fspeed ball)) then TOP else BOTTOM);
                    hc = horizontalTests_f ball paddle slope paddleSides0 horizontalVertices
                           (noCollision_f, 0);
                    vc = verticalTests_f ball paddle slope paddleSides1 verticalVertices
                           (noCollision_f, 0);
                    rc = closestPaddleCollision_f ball hc vc
                in (fst rc, correctedPosition_f (fst rc) (snd rc) newPosition, snd rc))))"

definition getPaddleCollision_f :: "FBall \<Rightarrow> FPaddle \<Rightarrow> FPoint \<Rightarrow> FCollision \<times> FPoint" where
  "getPaddleCollision_f ball paddle newPosition =
     (case getPaddleCollision_vf ball paddle newPosition of (c, np, v) \<Rightarrow> (c, np))"

definition wallHorizontalSide_f :: "FBall \<Rightarrow> Side" where
  "wallHorizontalSide_f ball = (if fle (Fin 0) (fx (fspeed ball)) then RIGHT else LEFT)"

definition wallHorizontalBound_f :: "FBall \<Rightarrow> fval" where
  "wallHorizontalBound_f ball =
     (if fle (Fin 0) (fx (fspeed ball)) then F_WINDOW_WIDTH else Fin 0)"

definition wallVerticalSide_f :: "FBall \<Rightarrow> Side" where
  "wallVerticalSide_f ball = (if fle (Fin 0) (fy (fspeed ball)) then BOTTOM else TOP)"

definition wallVerticalBound_f :: "FBall \<Rightarrow> fval" where
  "wallVerticalBound_f ball =
     (if fle (Fin 0) (fy (fspeed ball)) then F_WINDOW_HEIGHT else Fin 0)"

definition testedVertex_f :: "FBall \<Rightarrow> int" where
  "testedVertex_f ball =
     (if wallHorizontalSide_f ball = RIGHT \<and> wallVerticalSide_f ball = BOTTOM then 2
      else if wallHorizontalSide_f ball = LEFT \<and> wallVerticalSide_f ball = BOTTOM then 3
      else if wallHorizontalSide_f ball = RIGHT \<and> wallVerticalSide_f ball = TOP then 1
      else 0)"

definition wallNextPos_f :: "FBall \<Rightarrow> FPoint" where
  "wallNextPos_f ball =
     (let vertexPos = Ball_getVertex_f ball (testedVertex_f ball)
      in fpt (fadd (fx vertexPos) (fx (fspeed ball))) (fadd (fy vertexPos) (fy (fspeed ball))))"

definition wallHorizontalCol_f :: "FBall \<Rightarrow> fval \<Rightarrow> FCollision" where
  "wallHorizontalCol_f ball slope =
     (let horizontalBound = wallHorizontalBound_f ball;
          vertexPos = Ball_getVertex_f ball (testedVertex_f ball);
          nextPos = wallNextPos_f ball;
          yIncp = fsub (fy vertexPos) (fmul (fx vertexPos) slope)
      in if fle (MIN_f (fx vertexPos) (fx nextPos)) horizontalBound \<and>
            fle horizontalBound (MAX_f (fx vertexPos) (fx nextPos))
         then \<lparr>fcollides = 1,
               fcontact = fpt horizontalBound (fadd (fmul slope horizontalBound) yIncp),
               fside = wallHorizontalSide_f ball\<rparr>
         else noCollision_f)"

definition wallVerticalCol_f :: "FBall \<Rightarrow> fval \<Rightarrow> FCollision" where
  "wallVerticalCol_f ball slope =
     (let verticalBound = wallVerticalBound_f ball;
          vertexPos = Ball_getVertex_f ball (testedVertex_f ball);
          nextPos = wallNextPos_f ball;
          yIncp = fsub (fy vertexPos) (fmul (fx vertexPos) slope)
      in if fle (MIN_f (fy vertexPos) (fy nextPos)) verticalBound \<and>
            fle verticalBound (MAX_f (fy vertexPos) (fy nextPos))
         then \<lparr>fcollides = 1,
               fcontact = fpt (fdivide (fsub verticalBound yIncp) slope) verticalBound,
               fside = wallVerticalSide_f ball\<rparr>
         else noCollision_f)"

definition closestWallCollision_f :: "FPoint \<Rightarrow> FCollision \<Rightarrow> FCollision \<Rightarrow> FCollision" where
  "closestWallCollision_f vertexPos horizontalCol verticalCol =
     (if fcollides horizontalCol \<noteq> 0 \<and> fcollides verticalCol \<noteq> 0 then
        (if flt (Point_getDistance_f vertexPos (fcontact horizontalCol))
                (Point_getDistance_f vertexPos (fcontact verticalCol))
         then horizontalCol else verticalCol)
      else if fcollides horizontalCol \<noteq> 0 then horizontalCol
      else if fcollides verticalCol \<noteq> 0 then verticalCol
      else noCollision_f)"

definition getWallCollision_f :: "FBall \<Rightarrow> FPoint \<Rightarrow> FCollision \<times> FPoint" where
  "getWallCollision_f ball newPosition =
     (let returnVal = noCollision_f;
          slopeN = fy (fspeed ball);
          slopeD = fx (fspeed ball)
      in if feq slopeD (Fin 0) then (returnVal, newPosition)
         else
          (let slope = fdivide slopeN slopeD;
               returnVal =
                 closestWallCollision_f (Ball_getVertex_f ball (testedVertex_f ball))
                   (wallHorizontalCol_f ball slope) (wallVerticalCol_f ball slope)
           in (returnVal, correctedPosition_f returnVal (testedVertex_f ball) newPosition)))"

subsection \<open>The round loop of \<^verbatim>\<open>main\<close>\<close>

text \<open>
  The state of the game is the local variables of \<^verbatim>\<open>main\<close> that the round
  loop (\<^verbatim>\<open>gameState == 1\<close>) reads and writes. What it takes from SFML is an
  input: the four movement keys and the result of \<^verbatim>\<open>sfFloatRect_intersects\<close>
  on the drawn rectangles of the ball and of the paddle it heads for. Printing and
  drawing are left out.
\<close>

record Game =
  p1 :: Paddle
  p2 :: Paddle
  ball :: Ball
  gameState :: int

record Input =
  keyW :: bool
  keyS :: bool
  keyUp :: bool
  keyDown :: bool
  rectsIntersect :: bool

text \<open>
  The state in which \<^verbatim>\<open>main\<close> enters the round loop when a game starts: the
  paddles at their start positions, both scores 0, \<^verbatim>\<open>gameState\<close> 1. The ball's
  start velocity is random in the program; here the ball is given.
\<close>

definition P1_START_X :: real where "P1_START_X = 75"
definition P1_START_Y :: real where "P1_START_Y = 250"
definition P2_START_X :: real where "P2_START_X = 700"
definition P2_START_Y :: real where "P2_START_Y = 250"

definition roundStart :: "Point \<Rightarrow> Point \<Rightarrow> Game" where
  "roundStart pos vel =
     \<lparr>p1 = \<lparr>Paddle.position = pt P1_START_X P1_START_Y, score = 0\<rparr>,
      p2 = \<lparr>Paddle.position = pt P2_START_X P2_START_Y, score = 0\<rparr>,
      ball = \<lparr>Ball.position = pos, speed = vel\<rparr>,
      gameState = 1\<rparr>"

definition noKeys :: Input where
  "noKeys = \<lparr>keyW = False, keyS = False, keyUp = False, keyDown = False,
             rectsIntersect = False\<rparr>"

definition INT_MAX :: int where "INT_MAX = 2147483647"

text \<open>
  \<^verbatim>\<open>abs(ball.speed.y)\<close> is the \<^verbatim>\<open>int abs(int)\<close> of \<^verbatim>\<open>stdlib.h\<close>:
  the float is converted to \<^verbatim>\<open>int\<close>, which truncates towards zero. The
  conversion of a value outside the range of \<^verbatim>\<open>int\<close> and the absolute value of
  \<^verbatim>\<open>INT_MIN\<close> are undefined: \<open>None\<close>.
\<close>

definition c_abs_float :: "real \<Rightarrow> int option" where
  "c_abs_float r =
     (let i = (if r \<ge> 0 then \<lfloor>r\<rfloor> else \<lceil>r\<rceil>)
      in if - INT_MAX \<le> i \<and> i \<le> INT_MAX then Some \<bar>i\<bar> else None)"

text \<open>\<^verbatim>\<open>++score\<close>; the overflow of a signed \<^verbatim>\<open>int\<close> is undefined: \<open>None\<close>.\<close>

definition increment :: "int \<Rightarrow> int option" where
  "increment n = (if n = INT_MAX then None else Some (n + 1))"

definition setY :: "Point \<Rightarrow> real \<Rightarrow> Point" where
  "setY p v = p\<lparr>y := v\<rparr>"

definition movePaddleUp :: "Paddle \<Rightarrow> Paddle" where
  "movePaddleUp p =
     (let newY = y (Paddle.position p) - PADDLE_SPEED;
          newY = (if newY > 0 then newY else 0)
      in p\<lparr>Paddle.position := setY (Paddle.position p) newY\<rparr>)"

definition movePaddleDown :: "Paddle \<Rightarrow> Paddle" where
  "movePaddleDown p =
     (let newY = y (Paddle.position p) + PADDLE_SPEED;
          newY = (if newY < WINDOW_HEIGHT - PADDLE_HEIGHT then newY
                  else WINDOW_HEIGHT - PADDLE_HEIGHT)
      in p\<lparr>Paddle.position := setY (Paddle.position p) newY\<rparr>)"

text \<open>The four key tests; the result is the state and \<^verbatim>\<open>p1Dir\<close>, \<^verbatim>\<open>p2Dir\<close>.\<close>

definition movePaddles :: "Input \<Rightarrow> Game \<Rightarrow> Game \<times> int \<times> int" where
  "movePaddles inp g =
     (let g = (if keyW inp then g\<lparr>p1 := movePaddleUp (p1 g)\<rparr> else g);
          p1Dir = (if keyW inp then 0 - 1 else 0);
          g = (if keyS inp then g\<lparr>p1 := movePaddleDown (p1 g)\<rparr> else g);
          p1Dir = (if keyS inp then p1Dir + 1 else p1Dir);
          g = (if keyUp inp then g\<lparr>p2 := movePaddleUp (p2 g)\<rparr> else g);
          p2Dir = (if keyUp inp then 0 - 1 else 0);
          g = (if keyDown inp then g\<lparr>p2 := movePaddleDown (p2 g)\<rparr> else g);
          p2Dir = (if keyDown inp then p2Dir + 1 else p2Dir)
      in (g, p1Dir, p2Dir))"

text \<open>
  The block after \<^verbatim>\<open>sfFloatRect_intersects\<close>: a moving paddle that overlaps the
  ball pushes it along.
\<close>

definition paddlePush :: "bool \<Rightarrow> int \<Rightarrow> Game \<Rightarrow> Game option" where
  "paddlePush hit pDir g =
     (if hit \<and> pDir \<noteq> 0 then
        (case c_abs_float (y (speed (ball g))) of
           None \<Rightarrow> None
         | Some n \<Rightarrow>
            (let vy = real_of_int n * real_of_int pDir;
                 vy = vy + (if pDir = 1 then PADDLE_SPEED else 0 - PADDLE_SPEED)
             in Some (g\<lparr>ball := (ball g)\<lparr>speed := setY (speed (ball g)) vy\<rparr>\<rparr>)))
      else Some g)"

text \<open>
  The two tests that end the branch \<^verbatim>\<open>if(paddleCol.collides)\<close>; the result is
  the new \<^verbatim>\<open>ball.speed.y\<close>, for the \<^verbatim>\<open>ball.speed.x\<close> and
  \<^verbatim>\<open>ball.speed.y\<close> that the branch has set before.
\<close>

definition clampSpeedY :: "real \<Rightarrow> real \<Rightarrow> real" where
  "clampSpeedY vx vy =
     (if vy \<ge> MAX_m (vx * 3) (vx * (- 3)) then MAX_m (vx * 3) (vx * (- 3))
      else if vy \<le> MIN_m (vx * 3) (vx * (- 3)) then MIN_m (vx * 3) (vx * (- 3))
      else vy)"

text \<open>The branch \<^verbatim>\<open>if(paddleCol.collides)\<close>.\<close>

definition paddleResponse :: "Collision \<Rightarrow> Point \<Rightarrow> Game \<Rightarrow> Game" where
  "paddleResponse paddleCol ballNextA g =
     (let vx = x (speed (ball g));
          vy = y (speed (ball g));
          vx' = (if side paddleCol = LEFT then vx * (- 1) - 0.5
                 else if side paddleCol = RIGHT then vx * (- 1) + 0.5
                 else vx);
          vy' = (if side paddleCol = LEFT then
                   vy + (y ballNextA + (0.5 * BALL_SIZE)
                           - (y (Paddle.position (p2 g)) + (0.5 * PADDLE_HEIGHT))) / 5
                 else if side paddleCol = RIGHT then
                   vy + (y ballNextA + (0.5 * BALL_SIZE)
                           - (y (Paddle.position (p1 g)) + (0.5 * PADDLE_HEIGHT))) / 5
                 else vy * (- 1));
          vy'' = clampSpeedY vx' vy'
      in g\<lparr>ball := \<lparr>Ball.position = ballNextA, speed = pt vx' vy''\<rparr>\<rparr>)"

text \<open>The branch \<^verbatim>\<open>else if(wallCol.collides)\<close>.\<close>

definition wallResponse :: "Collision \<Rightarrow> Game \<Rightarrow> Game option" where
  "wallResponse wallCol g =
     (if side wallCol = TOP \<or> side wallCol = BOTTOM then
        Some (g\<lparr>ball := (ball g)\<lparr>speed := setY (speed (ball g)) (y (speed (ball g)) * (- 1))\<rparr>\<rparr>)
      else if side wallCol = LEFT then
        (case increment (score (p2 g)) of
           None \<Rightarrow> None
         | Some n \<Rightarrow> Some (g\<lparr>p2 := (p2 g)\<lparr>score := n\<rparr>, gameState := gameState g + 1\<rparr>))
      else if side wallCol = RIGHT then
        (case increment (score (p1 g)) of
           None \<Rightarrow> None
         | Some n \<Rightarrow> Some (g\<lparr>p1 := (p1 g)\<lparr>score := n\<rparr>, gameState := gameState g + 1\<rparr>))
      else Some g)"

text \<open>The last \<^verbatim>\<open>else\<close>: the unobstructed move.\<close>

definition advance :: "Game \<Rightarrow> Game" where
  "advance g =
     g\<lparr>ball := (ball g)\<lparr>Ball.position :=
          pt (x (Ball.position (ball g)) + x (speed (ball g)))
             (y (Ball.position (ball g)) + y (speed (ball g)))\<rparr>\<rparr>"

text \<open>The check after the three branches (``Double check if the ball is out of bounds'').\<close>

definition clampBallY :: "Game \<Rightarrow> Game" where
  "clampBallY g =
     (if y (Ball.position (ball g)) \<le> 0 then
        g\<lparr>ball := (ball g)\<lparr>Ball.position := setY (Ball.position (ball g)) 0.1\<rparr>\<rparr>
      else if y (Ball.position (ball g)) \<ge> WINDOW_HEIGHT then
        g\<lparr>ball := (ball g)\<lparr>Ball.position :=
             setY (Ball.position (ball g)) (WINDOW_HEIGHT - BALL_SIZE - 0.1)\<rparr>\<rparr>
      else g)"

text \<open>
  The call of the paddle resolver, for the paddle the ball heads for, with
  \<^verbatim>\<open>ballNextA\<close> initialised to (0,0).
\<close>

definition framePaddleCollision :: "Game \<Rightarrow> (Collision \<times> Point) option" where
  "framePaddleCollision g =
     (if x (speed (ball g)) \<ge> 0 then getPaddleCollision (ball g) (p2 g) (pt 0 0)
      else getPaddleCollision (ball g) (p1 g) (pt 0 0))"

text \<open>
  The integration step: both resolvers are called, then one of the three branches runs,
  then the ball is clamped. \<^verbatim>\<open>ballNextB\<close>, the position the wall resolver
  writes, is not read.
\<close>

definition integrationStep :: "Game \<Rightarrow> Game option" where
  "integrationStep g =
     (case framePaddleCollision g of
        None \<Rightarrow> None
      | Some (paddleCol, ballNextA) \<Rightarrow>
         (case getWallCollision (ball g) (pt 0 0) of
            None \<Rightarrow> None
          | Some (wallCol, ballNextB) \<Rightarrow>
             map_option clampBallY
               (if collides paddleCol \<noteq> 0 then Some (paddleResponse paddleCol ballNextA g)
                else if collides wallCol \<noteq> 0 then wallResponse wallCol g
                else Some (advance g))))"

text \<open>
  One pass through the round loop: the paddles move and may push the ball, then the
  integration step runs.
\<close>

definition paddlePhase :: "Input \<Rightarrow> Game \<Rightarrow> Game option" where
  "paddlePhase inp g =
     (let ballXDir = (if x (speed (ball g)) \<ge> 0 then 1 else 0 :: int);
          (g1, p1Dir, p2Dir) = movePaddles inp g;
          pDir = (if ballXDir = 1 then p2Dir else p1Dir)
      in paddlePush (rectsIntersect inp) pDir g1)"

definition roundLoopFrame :: "Input \<Rightarrow> Game \<Rightarrow> Game option" where
  "roundLoopFrame inp g =
     (case paddlePhase inp g of
        None \<Rightarrow> None
      | Some g2 \<Rightarrow> integrationStep g2)"

subsection \<open>The swept leading vertex and the snap, in the words of the specification\<close>

text \<open>
  A value of the single-precision format, and a ball state without NaN or infinity.
  \<open>exactShift c s\<close>: \<open>c\<close> is finite, and both \<open>c + s\<close> and \<open>c - s\<close> are
  computed without rounding error.
\<close>

definition is_float32 :: "fval \<Rightarrow> bool" where
  "is_float32 v = (case v of Fin r \<Rightarrow> fl 24 (- 126) r = r \<and> \<bar>r\<bar> < 2 ^ 128 | _ \<Rightarrow> True)"

definition exactShift :: "fval \<Rightarrow> fval \<Rightarrow> bool" where
  "exactShift c s =
     (is_finite c \<and> fadd c s = Fin (val c + val s) \<and> fsub c s = Fin (val c - val s))"

definition finiteBall :: "FBall \<Rightarrow> bool" where
  "finiteBall bl =
     (is_finite (fx (fposition bl)) \<and> is_finite (fy (fposition bl)) \<and>
      is_finite (fx (fspeed bl)) \<and> is_finite (fy (fspeed bl)))"

definition floatPoint :: "FPoint \<Rightarrow> bool" where
  "floatPoint p = (is_float32 (fx p) \<and> is_float32 (fy p))"

definition floatPaddle :: "FPaddle \<Rightarrow> bool" where
  "floatPaddle pd = floatPoint (pposition pd)"

text \<open>
  The leading vertex is the one vertex chosen by the signs of the two velocity
  components (a zero component counts as non-negative, as in the code). Its swept
  segment runs from the vertex to the next position of the vertex as the program
  computes it, the single-precision sum of the vertex and the velocity; it crosses the
  line \<open>x = c\<close> when \<open>c\<close> lies between the x-coordinates of its two ends, and the
  line \<open>y = c\<close> likewise. Then: crossing one of the four arena boundaries, and
  crossing one that lies ahead.
\<close>

definition leadingVertex_f :: "FBall \<Rightarrow> int" where
  "leadingVertex_f bl =
     (if fle (Fin 0) (fx (fspeed bl)) then (if fle (Fin 0) (fy (fspeed bl)) then 2 else 1)
      else (if fle (Fin 0) (fy (fspeed bl)) then 3 else 0))"

definition fmin :: "fval \<Rightarrow> fval \<Rightarrow> fval" where
  "fmin u v = (if fle u v then u else v)"

definition fmax :: "fval \<Rightarrow> fval \<Rightarrow> fval" where
  "fmax u v = (if fle u v then v else u)"

definition sweptCrossesX_f :: "FBall \<Rightarrow> fval \<Rightarrow> bool" where
  "sweptCrossesX_f bl c =
     (fle (fmin (fx (Ball_getVertex_f bl (leadingVertex_f bl)))
                (fadd (fx (Ball_getVertex_f bl (leadingVertex_f bl))) (fx (fspeed bl)))) c \<and>
      fle c (fmax (fx (Ball_getVertex_f bl (leadingVertex_f bl)))
                  (fadd (fx (Ball_getVertex_f bl (leadingVertex_f bl))) (fx (fspeed bl)))))"

definition sweptCrossesY_f :: "FBall \<Rightarrow> fval \<Rightarrow> bool" where
  "sweptCrossesY_f bl c =
     (fle (fmin (fy (Ball_getVertex_f bl (leadingVertex_f bl)))
                (fadd (fy (Ball_getVertex_f bl (leadingVertex_f bl))) (fy (fspeed bl)))) c \<and>
      fle c (fmax (fy (Ball_getVertex_f bl (leadingVertex_f bl)))
                  (fadd (fy (Ball_getVertex_f bl (leadingVertex_f bl))) (fy (fspeed bl)))))"

definition sweptCrossesArena_f :: "FBall \<Rightarrow> bool" where
  "sweptCrossesArena_f bl =
     (sweptCrossesX_f bl (Fin 0) \<or> sweptCrossesX_f bl F_WINDOW_WIDTH \<or>
      sweptCrossesY_f bl (Fin 0) \<or> sweptCrossesY_f bl F_WINDOW_HEIGHT)"

definition sweptCrossesAhead_f :: "FBall \<Rightarrow> bool" where
  "sweptCrossesAhead_f bl =
     (sweptCrossesX_f bl (if fle (Fin 0) (fx (fspeed bl)) then F_WINDOW_WIDTH else Fin 0) \<or>
      sweptCrossesY_f bl (if fle (Fin 0) (fy (fspeed bl)) then F_WINDOW_HEIGHT else Fin 0))"

text \<open>
  The colliding vertex of a ball placed at the corrected position, and what the snap
  achieves for the vertex \<open>v\<close> of a ball at \<open>np\<close> and the collision \<open>c\<close>: the
  vertex index is one of 0..3; in a coordinate in which the vertex is the ball's
  position itself it is the finite contact coordinate, bit for bit; in a coordinate in
  which the vertex is the position plus \<^verbatim>\<open>BALL_SIZE\<close> it compares equal to the
  contact coordinate, provided that adding the size to the contact coordinate and
  subtracting it are exact.
\<close>

definition snappedVertex :: "FCollision \<Rightarrow> int \<Rightarrow> FPoint \<Rightarrow> FPoint \<Rightarrow> FPoint" where
  "snappedVertex c v np sp =
     Ball_getVertex_f \<lparr>fposition = correctedPosition_f c v np, fspeed = sp\<rparr> v"

definition snapsToContact :: "FCollision \<Rightarrow> FPoint \<Rightarrow> int \<Rightarrow> bool" where
  "snapsToContact c np v =
     (v \<in> {0, 1, 2, 3} \<and>
      (is_finite (fx (fcontact c)) \<and> (v = 0 \<or> v = 3) \<longrightarrow>
         fx (Ball_getVertex_f \<lparr>fposition = np, fspeed = fpt (Fin 0) (Fin 0)\<rparr> v)
           = fx (fcontact c)) \<and>
      (is_finite (fy (fcontact c)) \<and> (v = 0 \<or> v = 1) \<longrightarrow>
         fy (Ball_getVertex_f \<lparr>fposition = np, fspeed = fpt (Fin 0) (Fin 0)\<rparr> v)
           = fy (fcontact c)) \<and>
      (exactShift (fx (fcontact c)) F_BALL_SIZE \<and> (v = 1 \<or> v = 2) \<longrightarrow>
         feq (fx (Ball_getVertex_f \<lparr>fposition = np, fspeed = fpt (Fin 0) (Fin 0)\<rparr> v))
             (fx (fcontact c))) \<and>
      (exactShift (fy (fcontact c)) F_BALL_SIZE \<and> (v = 2 \<or> v = 3) \<longrightarrow>
         feq (fy (Ball_getVertex_f \<lparr>fposition = np, fspeed = fpt (Fin 0) (Fin 0)\<rparr> v))
             (fy (fcontact c))))"

text \<open>The point \<open>q\<close> lies on the line of slope \<open>s\<close> through the point \<open>p\<close>.\<close>

definition onSlope :: "Point \<Rightarrow> Point \<Rightarrow> real \<Rightarrow> bool" where
  "onSlope p q s = (y q - y p = s * (x q - x p))"

section \<open>Properties\<close>

lemmas side_defs = TOP_def RIGHT_def BOTTOM_def LEFT_def

lemmas size_defs = WINDOW_WIDTH_def WINDOW_HEIGHT_def BALL_SIZE_def PADDLE_WIDTH_def
  PADDLE_HEIGHT_def PADDLE_SPEED_def

lemmas resolver_defs = MIN_m_def MAX_m_def fdiv_def pt_def
  Ball_getVertex_def Ball_getBound_def Paddle_getBound_def Point_getDistance_def noCollision_def
  correctedPosition_def paddleRejectX_def paddleRejectY_def closestPaddleCollision_def
  getPaddleCollision_v_def getPaddleCollision_def wallHorizontalSide_def wallHorizontalBound_def
  wallVerticalSide_def wallVerticalBound_def testedVertex_def wallHorizontalCol_def
  wallVerticalCol_def closestWallCollision_def getWallCollision_def Let_def

subsection \<open>The resolvers and division by zero\<close>

text \<open>
  The paddle resolver never divides by zero: the slope is taken after the test of
  \<^verbatim>\<open>slopeD\<close>, and the vertical tests leave their loop when the slope is zero.
\<close>

lemma verticalTests_total: "\<exists>r. verticalTests bl pd slope sd vs st = Some r"
proof (induction vs arbitrary: st)
  case Nil
  show ?case by simp
next
  case (Cons v vs)
  obtain c cv where st: "st = (c, cv)" by (cases st)
  show ?case using Cons.IH
    by (simp add: st Let_def fdiv_def)
qed

lemma getPaddleCollision_v_total: "\<exists>r. getPaddleCollision_v bl pd np = Some r"
proof -
  obtain r where "verticalTests bl pd (y (speed bl) / x (speed bl))
      (if y (speed bl) \<ge> 0 then TOP else BOTTOM) (if y (speed bl) \<ge> 0 then [2, 3] else [0, 1])
      (noCollision, 0) = Some r"
    using verticalTests_total by blast
  then show ?thesis
    by (simp add: getPaddleCollision_v_def Let_def fdiv_def)
qed

text \<open>
  C5. When the x-component of the ball's velocity is exactly zero, both resolvers return
  the initial \<^verbatim>\<open>returnVal\<close> (\<^verbatim>\<open>collides = 0\<close>) and leave the out-parameter
  alone, for every paddle. The result is \<open>Some\<close>: the return comes before the slope is
  divided, so no division by zero takes place.
\<close>

theorem zero_x_velocity_no_collision:
  assumes "x (speed bl) = 0"
  shows "getPaddleCollision bl pd np = Some (noCollision, np) \<and>
         getWallCollision bl np = Some (noCollision, np)"
  using assms by (simp add: getPaddleCollision_def getPaddleCollision_v_def getWallCollision_def)

theorem zero_x_velocity_no_collision_witness:
  "x (speed \<lparr>Ball.position = pt 390 290, speed = pt 0 3\<rparr>) = 0 \<and>
   getPaddleCollision \<lparr>Ball.position = pt 390 290, speed = pt 0 3\<rparr>
     \<lparr>Paddle.position = pt 700 250, score = 0\<rparr> (pt 1 2) = Some (noCollision, pt 1 2) \<and>
   getWallCollision \<lparr>Ball.position = pt 390 290, speed = pt 0 3\<rparr> (pt 1 2)
     = Some (noCollision, pt 1 2)"
proof -
  have h: "x (speed \<lparr>Ball.position = pt 390 290, speed = pt 0 3\<rparr>) = 0"
    by (simp add: pt_def)
  show ?thesis
    using h zero_x_velocity_no_collision [OF h] by simp
qed

subsection \<open>Geometry queries outside their domain\<close>

text \<open>
  C10. For a vertex index outside 0..3 and a side value outside the enum, the geometry
  queries of the ball and of the paddle take their \<^verbatim>\<open>default\<close> branch and return
  the zero value: the point (0,0), the line from (0,0) to (0,0), the bound 0. The queries
  are total functions of their arguments; none of them has a failing branch.
\<close>

theorem geometry_queries_default:
  assumes "vertex \<notin> {0, 1, 2, 3}" and "sd \<notin> {TOP, RIGHT, BOTTOM, LEFT}"
  shows "Ball_getVertex bl vertex = pt 0 0 \<and> Paddle_getVertex pd vertex = pt 0 0 \<and>
         Ball_getSide bl sd = \<lparr>a = pt 0 0, b = pt 0 0\<rparr> \<and>
         Paddle_getSide pd sd = \<lparr>a = pt 0 0, b = pt 0 0\<rparr> \<and>
         Ball_getBound bl sd = 0 \<and> Paddle_getBound pd sd = 0"
  using assms
  by (simp add: Ball_getVertex_def Paddle_getVertex_def Ball_getSide_def Paddle_getSide_def
      Ball_getBound_def Paddle_getBound_def)

theorem geometry_queries_default_witness:
  "(7::int) \<notin> {0, 1, 2, 3} \<and> (- 1) \<notin> {TOP, RIGHT, BOTTOM, LEFT} \<and>
   Ball_getVertex \<lparr>Ball.position = pt 390 290, speed = pt 5 3\<rparr> 7 = pt 0 0 \<and>
   Paddle_getVertex \<lparr>Paddle.position = pt 75 250, score = 0\<rparr> 7 = pt 0 0 \<and>
   Ball_getSide \<lparr>Ball.position = pt 390 290, speed = pt 5 3\<rparr> (- 1)
     = \<lparr>a = pt 0 0, b = pt 0 0\<rparr> \<and>
   Paddle_getSide \<lparr>Paddle.position = pt 75 250, score = 0\<rparr> (- 1)
     = \<lparr>a = pt 0 0, b = pt 0 0\<rparr> \<and>
   Ball_getBound \<lparr>Ball.position = pt 390 290, speed = pt 5 3\<rparr> (- 1) = 0 \<and>
   Paddle_getBound \<lparr>Paddle.position = pt 75 250, score = 0\<rparr> (- 1) = 0"
proof -
  have v: "(7::int) \<notin> {0, 1, 2, 3}" by simp
  have s: "(- 1) \<notin> {TOP, RIGHT, BOTTOM, LEFT}" by (simp add: side_defs)
  show ?thesis
    using v s geometry_queries_default [OF v s,
        of "\<lparr>Ball.position = pt 390 290, speed = pt 5 3\<rparr>"
           "\<lparr>Paddle.position = pt 75 250, score = 0\<rparr>"]
    by simp
qed

subsection \<open>The broad-phase reject of the paddle resolver\<close>




subsection \<open>The integration step\<close>

lemmas frame_defs = INT_MAX_def c_abs_float_def increment_def setY_def movePaddleUp_def
  movePaddleDown_def movePaddles_def paddlePush_def paddleResponse_def wallResponse_def
  advance_def clampBallY_def clampSpeedY_def framePaddleCollision_def integrationStep_def paddlePhase_def roundLoopFrame_def
  P1_START_X_def P1_START_Y_def P2_START_X_def P2_START_Y_def roundStart_def noKeys_def




lemma clampBallY_x: "x (Ball.position (ball (clampBallY g))) = x (Ball.position (ball g))"
  by (simp add: clampBallY_def setY_def)

lemma clampBallY_others:
  "p1 (clampBallY g) = p1 g \<and> p2 (clampBallY g) = p2 g \<and> gameState (clampBallY g) = gameState g"
  by (simp add: clampBallY_def)

lemma clampBallY_inside:
  "0 < y (Ball.position (ball (clampBallY g))) \<and>
   y (Ball.position (ball (clampBallY g))) < WINDOW_HEIGHT"
  by (simp add: clampBallY_def setY_def size_defs)

lemma integrationStep_clamped:
  assumes "integrationStep g = Some g'"
  shows "\<exists>h. g' = clampBallY h"
  using assms
  by (auto simp: integrationStep_def split: option.splits prod.splits)

lemma integrationStep_eq:
  assumes "framePaddleCollision g = Some (pc, nA)"
    and "getWallCollision (ball g) (pt 0 0) = Some (wc, nB)"
  shows "integrationStep g =
     map_option clampBallY
       (if collides pc \<noteq> 0 then Some (paddleResponse pc nA g)
        else if collides wc \<noteq> 0 then wallResponse wc g
        else Some (advance g))"
  using assms by (simp add: integrationStep_def)


lemma wall_score_step:
  assumes "framePaddleCollision g = Some (pc, nA)" and "collides pc = 0"
    and "getWallCollision (ball g) (pt 0 0) = Some (wc, nB)" and "collides wc \<noteq> 0"
  shows "(side wc = LEFT \<and> score (p2 g) \<noteq> INT_MAX \<longrightarrow>
            (\<exists>g'. integrationStep g = Some g' \<and>
                  score (p2 g') = score (p2 g) + 1 \<and> score (p1 g') = score (p1 g) \<and>
                  gameState g' = gameState g + 1 \<and>
                  speed (ball g') = speed (ball g) \<and>
                  Ball.position (ball g') = Ball.position (ball (clampBallY g)) \<and>
                  x (Ball.position (ball g')) = x (Ball.position (ball g)))) \<and>
         (side wc = RIGHT \<and> score (p1 g) \<noteq> INT_MAX \<longrightarrow>
            (\<exists>g'. integrationStep g = Some g' \<and>
                  score (p1 g') = score (p1 g) + 1 \<and> score (p2 g') = score (p2 g) \<and>
                  gameState g' = gameState g + 1 \<and>
                  speed (ball g') = speed (ball g) \<and>
                  Ball.position (ball g') = Ball.position (ball (clampBallY g)) \<and>
                  x (Ball.position (ball g')) = x (Ball.position (ball g))))"
proof -
  have step: "integrationStep g = map_option clampBallY (wallResponse wc g)"
    using assms by (simp add: integrationStep_eq [of g pc nA wc nB])
  show ?thesis
    unfolding step
    by (auto simp: wallResponse_def increment_def side_defs clampBallY_def setY_def)
qed



lemma eval_left:
  "framePaddleCollision (roundStart (pt 2 100) (pt (- 5) (- 3)))
     = Some (\<lparr>collides = 0, position = pt 0 0, side = TOP\<rparr>, pt 0 0) \<and>
   getWallCollision (ball (roundStart (pt 2 100) (pt (- 5) (- 3)))) (pt 0 0)
     = Some (\<lparr>collides = 1, position = pt 0 (494 / 5), side = LEFT\<rparr>, pt 0 (494 / 5))"
  by (simp add: framePaddleCollision_def roundStart_def P1_START_X_def P1_START_Y_def
      resolver_defs side_defs size_defs)

lemma eval_right:
  "framePaddleCollision (roundStart (pt 778 100) (pt 5 3))
     = Some (\<lparr>collides = 0, position = pt 0 0, side = TOP\<rparr>, pt 0 0) \<and>
   getWallCollision (ball (roundStart (pt 778 100) (pt 5 3))) (pt 0 0)
     = Some (\<lparr>collides = 1, position = pt 800 (606 / 5), side = RIGHT\<rparr>, pt 780 (506 / 5))"
  by (simp add: framePaddleCollision_def roundStart_def P2_START_X_def P2_START_Y_def
      resolver_defs side_defs size_defs)

subsection \<open>A pass through the round loop\<close>

lemma movePaddleUp_score: "score (movePaddleUp p) = score p"
  by (simp add: movePaddleUp_def Let_def)

lemma movePaddleDown_score: "score (movePaddleDown p) = score p"
  by (simp add: movePaddleDown_def Let_def)

lemma movePaddles_preserves:
  "score (p1 (fst (movePaddles inp g))) = score (p1 g) \<and>
   score (p2 (fst (movePaddles inp g))) = score (p2 g) \<and>
   gameState (fst (movePaddles inp g)) = gameState g \<and>
   ball (fst (movePaddles inp g)) = ball g"
  by (simp add: movePaddles_def Let_def movePaddleUp_score movePaddleDown_score)

lemma paddlePush_preserves:
  assumes "paddlePush hit d g1 = Some g2"
  shows "p1 g2 = p1 g1 \<and> p2 g2 = p2 g1 \<and> gameState g2 = gameState g1 \<and>
         Ball.position (ball g2) = Ball.position (ball g1) \<and>
         x (speed (ball g2)) = x (speed (ball g1))"
proof (cases "hit \<and> d \<noteq> 0")
  case True
  with assms obtain n where "c_abs_float (y (speed (ball g1))) = Some n"
    by (auto simp: paddlePush_def split: option.splits)
  with assms True show ?thesis
    by (auto simp: paddlePush_def Let_def setY_def)
next
  case False
  with assms show ?thesis by (auto simp: paddlePush_def)
qed

lemma paddlePhase_preserves:
  assumes "paddlePhase inp g = Some g2"
  shows "score (p1 g2) = score (p1 g) \<and> score (p2 g2) = score (p2 g) \<and>
         gameState g2 = gameState g \<and>
         Ball.position (ball g2) = Ball.position (ball g) \<and>
         x (speed (ball g2)) = x (speed (ball g))"
proof -
  from assms obtain d where "paddlePush (rectsIntersect inp) d (fst (movePaddles inp g)) = Some g2"
    by (simp add: paddlePhase_def Let_def split_beta)
  from paddlePush_preserves [OF this] movePaddles_preserves [of inp g]
  show ?thesis by simp
qed

lemma roundLoopFrame_eq:
  "paddlePhase inp g = Some g2 \<Longrightarrow> roundLoopFrame inp g = integrationStep g2"
  by (simp add: roundLoopFrame_def)

lemma framePaddleCollision_total: "\<exists>r. framePaddleCollision g = Some r"
  using getPaddleCollision_v_total [of "ball g" "p1 g" "pt 0 0"]
    getPaddleCollision_v_total [of "ball g" "p2 g" "pt 0 0"]
  by (auto simp: framePaddleCollision_def getPaddleCollision_def)

lemma integrationStep_total:
  assumes "getWallCollision (ball g) (pt 0 0) \<noteq> None"
    and "score (p1 g) \<noteq> INT_MAX" and "score (p2 g) \<noteq> INT_MAX"
  shows "\<exists>g'. integrationStep g = Some g'"
proof -
  obtain pc nA where p: "framePaddleCollision g = Some (pc, nA)"
    using framePaddleCollision_total [of g] by auto
  obtain wc nB where w: "getWallCollision (ball g) (pt 0 0) = Some (wc, nB)"
    using assms(1) by auto
  show ?thesis
    using assms(2,3)
    by (simp add: integrationStep_eq [OF p w] wallResponse_def increment_def)
qed

lemma clampBallY_position:
  "Ball.position (ball h) = Ball.position (ball k) \<Longrightarrow>
   Ball.position (ball (clampBallY h)) = Ball.position (ball (clampBallY k))"
  by (simp add: clampBallY_def setY_def)

lemma paddlePhase_noKeys: "paddlePhase noKeys g = Some g"
  by (simp add: paddlePhase_def movePaddles_def paddlePush_def noKeys_def Let_def)



text \<open>
  C3. In a pass through the round loop in which the paddle resolver reports no
  collision and the wall resolver reports one (for the state \<open>g2\<close> that the paddle
  phase leaves): with side LEFT the score of player 2 grows by one, with side RIGHT the
  score of player 1; the other score stays, \<^verbatim>\<open>gameState\<close> grows by one (from 1,
  the round loop, to 2), the velocity of the ball is the one the resolvers were given,
  and its position is the old one, only passed through the final check of y (its x is the
  old x). The score counted is below \<^verbatim>\<open>INT_MAX\<close>, so that \<^verbatim>\<open>++\<close> is
  defined.
\<close>

theorem wall_score_event:
  assumes "paddlePhase inp g = Some g2"
    and "framePaddleCollision g2 = Some (pc, nA)" and "collides pc = 0"
    and "getWallCollision (ball g2) (pt 0 0) = Some (wc, nB)" and "collides wc \<noteq> 0"
  shows "(side wc = LEFT \<and> score (p2 g) \<noteq> INT_MAX \<longrightarrow>
            (\<exists>g'. roundLoopFrame inp g = Some g' \<and>
                  score (p2 g') = score (p2 g) + 1 \<and> score (p1 g') = score (p1 g) \<and>
                  gameState g' = gameState g + 1 \<and>
                  speed (ball g') = speed (ball g2) \<and>
                  x (speed (ball g')) = x (speed (ball g)) \<and>
                  Ball.position (ball g') = Ball.position (ball (clampBallY g)) \<and>
                  x (Ball.position (ball g')) = x (Ball.position (ball g)))) \<and>
         (side wc = RIGHT \<and> score (p1 g) \<noteq> INT_MAX \<longrightarrow>
            (\<exists>g'. roundLoopFrame inp g = Some g' \<and>
                  score (p1 g') = score (p1 g) + 1 \<and> score (p2 g') = score (p2 g) \<and>
                  gameState g' = gameState g + 1 \<and>
                  speed (ball g') = speed (ball g2) \<and>
                  x (speed (ball g')) = x (speed (ball g)) \<and>
                  Ball.position (ball g') = Ball.position (ball (clampBallY g)) \<and>
                  x (Ball.position (ball g')) = x (Ball.position (ball g))))"
proof -
  note pr = paddlePhase_preserves [OF assms(1)]
  have cl: "Ball.position (ball (clampBallY g2)) = Ball.position (ball (clampBallY g))"
    using pr by (intro clampBallY_position) simp
  have fr: "roundLoopFrame inp g = integrationStep g2"
    using assms(1) by (rule roundLoopFrame_eq)
  note st = wall_score_step [OF assms(2-5)]
  show ?thesis
  proof (intro conjI impI)
    assume "side wc = LEFT \<and> score (p2 g) \<noteq> INT_MAX"
    with pr have "side wc = LEFT \<and> score (p2 g2) \<noteq> INT_MAX" by simp
    with st obtain g' where "integrationStep g2 = Some g'"
      "score (p2 g') = score (p2 g2) + 1" "score (p1 g') = score (p1 g2)"
      "gameState g' = gameState g2 + 1" "speed (ball g') = speed (ball g2)"
      "Ball.position (ball g') = Ball.position (ball (clampBallY g2))"
      "x (Ball.position (ball g')) = x (Ball.position (ball g2))"
      by blast
    with pr cl fr show "\<exists>g'. roundLoopFrame inp g = Some g' \<and>
                  score (p2 g') = score (p2 g) + 1 \<and> score (p1 g') = score (p1 g) \<and>
                  gameState g' = gameState g + 1 \<and>
                  speed (ball g') = speed (ball g2) \<and>
                  x (speed (ball g')) = x (speed (ball g)) \<and>
                  Ball.position (ball g') = Ball.position (ball (clampBallY g)) \<and>
                  x (Ball.position (ball g')) = x (Ball.position (ball g))"
      by simp
  next
    assume "side wc = RIGHT \<and> score (p1 g) \<noteq> INT_MAX"
    with pr have "side wc = RIGHT \<and> score (p1 g2) \<noteq> INT_MAX" by simp
    with st obtain g' where "integrationStep g2 = Some g'"
      "score (p1 g') = score (p1 g2) + 1" "score (p2 g') = score (p2 g2)"
      "gameState g' = gameState g2 + 1" "speed (ball g') = speed (ball g2)"
      "Ball.position (ball g') = Ball.position (ball (clampBallY g2))"
      "x (Ball.position (ball g')) = x (Ball.position (ball g2))"
      by blast
    with pr cl fr show "\<exists>g'. roundLoopFrame inp g = Some g' \<and>
                  score (p1 g') = score (p1 g) + 1 \<and> score (p2 g') = score (p2 g) \<and>
                  gameState g' = gameState g + 1 \<and>
                  speed (ball g') = speed (ball g2) \<and>
                  x (speed (ball g')) = x (speed (ball g)) \<and>
                  Ball.position (ball g') = Ball.position (ball (clampBallY g)) \<and>
                  x (Ball.position (ball g')) = x (Ball.position (ball g))"
      by simp
  qed
qed

theorem wall_score_event_witness:
  "paddlePhase noKeys (roundStart (pt 2 100) (pt (- 5) (- 3)))
     = Some (roundStart (pt 2 100) (pt (- 5) (- 3))) \<and>
   framePaddleCollision (roundStart (pt 2 100) (pt (- 5) (- 3)))
     = Some (\<lparr>collides = 0, position = pt 0 0, side = TOP\<rparr>, pt 0 0) \<and>
   getWallCollision (ball (roundStart (pt 2 100) (pt (- 5) (- 3)))) (pt 0 0)
     = Some (\<lparr>collides = 1, position = pt 0 (494 / 5), side = LEFT\<rparr>, pt 0 (494 / 5)) \<and>
   (\<exists>g'. roundLoopFrame noKeys (roundStart (pt 2 100) (pt (- 5) (- 3))) = Some g' \<and>
         score (p2 g') = 1 \<and> score (p1 g') = 0 \<and> gameState g' = 2 \<and>
         speed (ball g') = pt (- 5) (- 3) \<and> x (Ball.position (ball g')) = 2) \<and>
   paddlePhase noKeys (roundStart (pt 778 100) (pt 5 3))
     = Some (roundStart (pt 778 100) (pt 5 3)) \<and>
   framePaddleCollision (roundStart (pt 778 100) (pt 5 3))
     = Some (\<lparr>collides = 0, position = pt 0 0, side = TOP\<rparr>, pt 0 0) \<and>
   getWallCollision (ball (roundStart (pt 778 100) (pt 5 3))) (pt 0 0)
     = Some (\<lparr>collides = 1, position = pt 800 (606 / 5), side = RIGHT\<rparr>, pt 780 (506 / 5)) \<and>
   (\<exists>g'. roundLoopFrame noKeys (roundStart (pt 778 100) (pt 5 3)) = Some g' \<and>
         score (p1 g') = 1 \<and> score (p2 g') = 0 \<and> gameState g' = 2 \<and>
         speed (ball g') = pt 5 3 \<and> x (Ball.position (ball g')) = 778)"
proof -
  have sc: "score (p1 (roundStart pos vel)) = 0" "score (p2 (roundStart pos vel)) = 0"
    "gameState (roundStart pos vel) = 1" "speed (ball (roundStart pos vel)) = vel"
    "Ball.position (ball (roundStart pos vel)) = pos" for pos vel
    by (simp_all add: roundStart_def)
  have "side \<lparr>collides = 1, position = pt 0 (494 / 5), side = LEFT\<rparr> = LEFT \<and>
      score (p2 (roundStart (pt 2 100) (pt (- 5) (- 3)))) \<noteq> INT_MAX"
    by (simp add: sc INT_MAX_def)
  with wall_score_event [OF paddlePhase_noKeys conjunct1 [OF eval_left] _
      conjunct2 [OF eval_left]]
  obtain g' where "roundLoopFrame noKeys (roundStart (pt 2 100) (pt (- 5) (- 3))) = Some g'"
    "score (p2 g') = score (p2 (roundStart (pt 2 100) (pt (- 5) (- 3)))) + 1"
    "score (p1 g') = score (p1 (roundStart (pt 2 100) (pt (- 5) (- 3))))"
    "gameState g' = gameState (roundStart (pt 2 100) (pt (- 5) (- 3))) + 1"
    "speed (ball g') = speed (ball (roundStart (pt 2 100) (pt (- 5) (- 3))))"
    "x (Ball.position (ball g')) = x (Ball.position (ball (roundStart (pt 2 100) (pt (- 5) (- 3)))))"
    by auto
  then have l: "(\<exists>g'. roundLoopFrame noKeys (roundStart (pt 2 100) (pt (- 5) (- 3))) = Some g' \<and>
         score (p2 g') = 1 \<and> score (p1 g') = 0 \<and> gameState g' = 2 \<and>
         speed (ball g') = pt (- 5) (- 3) \<and> x (Ball.position (ball g')) = 2)"
    by (simp add: sc pt_def)
  have "side \<lparr>collides = 1, position = pt 800 (606 / 5), side = RIGHT\<rparr> = RIGHT \<and>
      score (p1 (roundStart (pt 778 100) (pt 5 3))) \<noteq> INT_MAX"
    by (simp add: sc INT_MAX_def)
  with wall_score_event [OF paddlePhase_noKeys conjunct1 [OF eval_right] _
      conjunct2 [OF eval_right]]
  obtain h' where "roundLoopFrame noKeys (roundStart (pt 778 100) (pt 5 3)) = Some h'"
    "score (p1 h') = score (p1 (roundStart (pt 778 100) (pt 5 3))) + 1"
    "score (p2 h') = score (p2 (roundStart (pt 778 100) (pt 5 3)))"
    "gameState h' = gameState (roundStart (pt 778 100) (pt 5 3)) + 1"
    "speed (ball h') = speed (ball (roundStart (pt 778 100) (pt 5 3)))"
    "x (Ball.position (ball h')) = x (Ball.position (ball (roundStart (pt 778 100) (pt 5 3))))"
    by auto
  then have r: "(\<exists>g'. roundLoopFrame noKeys (roundStart (pt 778 100) (pt 5 3)) = Some g' \<and>
         score (p1 g') = 1 \<and> score (p2 g') = 0 \<and> gameState g' = 2 \<and>
         speed (ball g') = pt 5 3 \<and> x (Ball.position (ball g')) = 778)"
    by (simp add: sc pt_def)
  from l r eval_left eval_right paddlePhase_noKeys show ?thesis by simp
qed

lemma roundLoopFrame_clamped:
  assumes "roundLoopFrame inp g = Some g'"
  shows "\<exists>h. g' = clampBallY h"
  using assms integrationStep_clamped
  by (auto simp: roundLoopFrame_def split: option.splits)

text \<open>
  C9. At the end of every pass through the round loop the y-position of the ball is
  strictly between 0 and the arena height. The final check sets a y-position at or below
  0 to 0.1, and one at or above the arena height to the height less the ball size less
  0.1; it leaves a position strictly inside alone. The pass ends with this check whatever
  the resolvers have returned.
\<close>

theorem ball_y_inside_after_frame:
  "(roundLoopFrame inp g = Some g' \<longrightarrow>
      0 < y (Ball.position (ball g')) \<and> y (Ball.position (ball g')) < WINDOW_HEIGHT) \<and>
   (y (Ball.position (ball h)) \<le> 0 \<longrightarrow> y (Ball.position (ball (clampBallY h))) = 0.1) \<and>
   (y (Ball.position (ball h)) \<ge> WINDOW_HEIGHT \<longrightarrow>
      y (Ball.position (ball (clampBallY h))) = WINDOW_HEIGHT - BALL_SIZE - 0.1) \<and>
   (0 < y (Ball.position (ball h)) \<and> y (Ball.position (ball h)) < WINDOW_HEIGHT \<longrightarrow>
      clampBallY h = h)"
proof (intro conjI impI)
  assume "roundLoopFrame inp g = Some g'"
  then obtain k where "g' = clampBallY k" using roundLoopFrame_clamped by blast
  then show "0 < y (Ball.position (ball g'))" "y (Ball.position (ball g')) < WINDOW_HEIGHT"
    using clampBallY_inside [of k] by simp_all
next
  assume "y (Ball.position (ball h)) \<le> 0"
  then show "y (Ball.position (ball (clampBallY h))) = 0.1"
    by (simp add: clampBallY_def setY_def)
next
  assume "y (Ball.position (ball h)) \<ge> WINDOW_HEIGHT"
  then show "y (Ball.position (ball (clampBallY h))) = WINDOW_HEIGHT - BALL_SIZE - 0.1"
    by (simp add: clampBallY_def setY_def size_defs)
next
  assume "0 < y (Ball.position (ball h)) \<and> y (Ball.position (ball h)) < WINDOW_HEIGHT"
  then show "clampBallY h = h"
    by (simp add: clampBallY_def)
qed

lemma eval_free_frame:
  "roundLoopFrame noKeys (roundStart (pt 390 290) (pt 5 3))
     = Some (roundStart (pt 395 293) (pt 5 3))"
  by (simp add: frame_defs resolver_defs side_defs size_defs)

lemma eval_low_frame:
  "roundLoopFrame noKeys (roundStart (pt 390 (- 25)) (pt 5 3))
     = Some (roundStart (pt 395 (1 / 10)) (pt 5 3))"
  by (simp add: frame_defs resolver_defs side_defs size_defs)

lemma eval_high_frame:
  "roundLoopFrame noKeys (roundStart (pt 390 598) (pt 5 3))
     = Some (roundStart (pt 395 (5799 / 10)) (pt 5 3))"
  by (simp add: frame_defs resolver_defs side_defs size_defs)

theorem ball_y_inside_after_frame_witness:
  "roundLoopFrame noKeys (roundStart (pt 390 (- 25)) (pt 5 3))
     = Some (roundStart (pt 395 (1 / 10)) (pt 5 3)) \<and>
   0 < y (Ball.position (ball (roundStart (pt 395 (1 / 10)) (pt 5 3)))) \<and>
   y (Ball.position (ball (roundStart (pt 395 (1 / 10)) (pt 5 3)))) < WINDOW_HEIGHT \<and>
   y (Ball.position (ball (roundStart (pt 395 (- 22)) (pt 5 3)))) \<le> 0 \<and>
   y (Ball.position (ball (clampBallY (roundStart (pt 395 (- 22)) (pt 5 3))))) = 0.1 \<and>
   y (Ball.position (ball (roundStart (pt 395 601) (pt 5 3)))) \<ge> WINDOW_HEIGHT \<and>
   y (Ball.position (ball (clampBallY (roundStart (pt 395 601) (pt 5 3)))))
     = WINDOW_HEIGHT - BALL_SIZE - 0.1 \<and>
   0 < y (Ball.position (ball (roundStart (pt 395 293) (pt 5 3)))) \<and>
   y (Ball.position (ball (roundStart (pt 395 293) (pt 5 3)))) < WINDOW_HEIGHT \<and>
   clampBallY (roundStart (pt 395 293) (pt 5 3)) = roundStart (pt 395 293) (pt 5 3)"
proof -
  have yy: "y (Ball.position (ball (roundStart (pt u v) vel))) = v" for u v vel
    by (simp add: roundStart_def pt_def)
  have h1: "y (Ball.position (ball (roundStart (pt 395 (- 22)) (pt 5 3)))) \<le> 0"
    by (simp add: yy)
  have h2: "y (Ball.position (ball (roundStart (pt 395 601) (pt 5 3)))) \<ge> WINDOW_HEIGHT"
    by (simp add: yy size_defs)
  have h3: "0 < y (Ball.position (ball (roundStart (pt 395 293) (pt 5 3)))) \<and>
      y (Ball.position (ball (roundStart (pt 395 293) (pt 5 3)))) < WINDOW_HEIGHT"
    by (simp add: yy size_defs)
  show ?thesis
    using eval_low_frame h1 h2 h3
      ball_y_inside_after_frame [of noKeys "roundStart (pt 390 (- 25)) (pt 5 3)"
        "roundStart (pt 395 (1 / 10)) (pt 5 3)" "roundStart (pt 395 (- 22)) (pt 5 3)"]
      ball_y_inside_after_frame [of noKeys "roundStart (pt 390 (- 25)) (pt 5 3)"
        "roundStart (pt 395 (1 / 10)) (pt 5 3)" "roundStart (pt 395 601) (pt 5 3)"]
      ball_y_inside_after_frame [of noKeys "roundStart (pt 390 (- 25)) (pt 5 3)"
        "roundStart (pt 395 (1 / 10)) (pt 5 3)" "roundStart (pt 395 293) (pt 5 3)"]
    by simp
qed

text \<open>
  What the step does when only the wall resolver reports, with side TOP or BOTTOM: the
  y-component of the velocity changes sign and nothing else is written before the final
  check.
\<close>

lemma wall_bounce_step:
  assumes "framePaddleCollision g = Some (pc, nA)" and "collides pc = 0"
    and "getWallCollision (ball g) (pt 0 0) = Some (wc, nB)" and "collides wc \<noteq> 0"
    and "side wc = TOP \<or> side wc = BOTTOM"
  shows "integrationStep g =
     Some (clampBallY (g\<lparr>ball := (ball g)\<lparr>speed :=
        setY (speed (ball g)) (y (speed (ball g)) * (- 1))\<rparr>\<rparr>))"
  using assms by (auto simp: integrationStep_eq [of g pc nA wc nB] wallResponse_def)

text \<open>
  C2 at a concrete state: the ball at (400,2) with velocity (-5,-3), the paddles at
  their start positions. The paddle resolver reports nothing; the wall resolver reports
  the side TOP, the contact (1190/3, 0) and the corrected position (1190/3, 0). After the
  step the velocity is (-5,3) and the scores are unchanged, and the ball is still at
  (400,2): the corrected position is not assigned.
\<close>

theorem wall_bounce_keeps_position:
  "framePaddleCollision (roundStart (pt 400 2) (pt (- 5) (- 3)))
     = Some (\<lparr>collides = 0, position = pt 0 0, side = TOP\<rparr>, pt 0 0) \<and>
   getWallCollision (ball (roundStart (pt 400 2) (pt (- 5) (- 3)))) (pt 0 0)
     = Some (\<lparr>collides = 1, position = pt (1190 / 3) 0, side = TOP\<rparr>, pt (1190 / 3) 0) \<and>
   integrationStep (roundStart (pt 400 2) (pt (- 5) (- 3)))
     = Some (roundStart (pt 400 2) (pt (- 5) 3)) \<and>
   roundLoopFrame noKeys (roundStart (pt 400 2) (pt (- 5) (- 3)))
     = Some (roundStart (pt 400 2) (pt (- 5) 3)) \<and>
   Ball.position (ball (roundStart (pt 400 2) (pt (- 5) 3))) = pt 400 2"
  by (simp add: frame_defs resolver_defs side_defs size_defs)

subsection \<open>The distance and the choice of the nearer contact\<close>

text \<open>
  C4 at concrete points. The ball at (778,578) with velocity (5,3) sweeps its vertex 2
  from (798,598) across both \<open>x = 800\<close> and \<open>y = 600\<close>, so the wall resolver
  compares two distances; the first is that of (798,598) and the contact (800, 599.2). The
  function returns the square root of 6 for it, and the Euclidean distance is the square
  root of 136/25. For (0,0) and (0,3) the function returns the square root of 2, and the
  Euclidean distance is 3.
\<close>

theorem Point_getDistance_not_euclidean:
  "getWallCollision \<lparr>Ball.position = pt 778 578, speed = pt 5 3\<rparr> (pt 0 0)
     = Some (\<lparr>collides = 1, position = pt 800 (2996 / 5), side = RIGHT\<rparr>, pt 780 (2896 / 5)) \<and>
   Ball_getVertex \<lparr>Ball.position = pt 778 578, speed = pt 5 3\<rparr>
     (testedVertex \<lparr>Ball.position = pt 778 578, speed = pt 5 3\<rparr>) = pt 798 598 \<and>
   Point_getDistance (pt 798 598) (pt 800 (2996 / 5)) = sqrt 6 \<and>
   euclidean_distance (pt 798 598) (pt 800 (2996 / 5)) = sqrt (136 / 25) \<and>
   euclidean_distance (pt 798 598) (pt 800 (2996 / 5))
     < Point_getDistance (pt 798 598) (pt 800 (2996 / 5)) \<and>
   Point_getDistance (pt 0 0) (pt 0 3) = sqrt 2 \<and>
   euclidean_distance (pt 0 0) (pt 0 3) = 3"
proof -
  have w: "getWallCollision \<lparr>Ball.position = pt 778 578, speed = pt 5 3\<rparr> (pt 0 0)
     = Some (\<lparr>collides = 1, position = pt 800 (2996 / 5), side = RIGHT\<rparr>, pt 780 (2896 / 5))"
    by (simp add: resolver_defs side_defs size_defs power2_eq_square)
  have v: "Ball_getVertex \<lparr>Ball.position = pt 778 578, speed = pt 5 3\<rparr>
     (testedVertex \<lparr>Ball.position = pt 778 578, speed = pt 5 3\<rparr>) = pt 798 598"
    by (simp add: resolver_defs side_defs size_defs)
  have d: "Point_getDistance (pt 798 598) (pt 800 (2996 / 5)) = sqrt 6"
    by (simp add: Point_getDistance_def pt_def)
  have e: "euclidean_distance (pt 798 598) (pt 800 (2996 / 5)) = sqrt (136 / 25)"
    by (simp add: euclidean_distance_def pt_def power2_eq_square)
  have l: "sqrt (136 / 25) < sqrt 6" by simp
  have d0: "Point_getDistance (pt 0 0) (pt 0 3) = sqrt 2"
    by (simp add: Point_getDistance_def pt_def)
  have "euclidean_distance (pt 0 0) (pt 0 3) = sqrt (3 ^ 2)"
    by (simp add: euclidean_distance_def pt_def)
  then have e0: "euclidean_distance (pt 0 0) (pt 0 3) = 3"
    by (simp only: real_sqrt_abs)
  from w v d e l d0 e0 show ?thesis by simp
qed

text \<open>
  Both candidate contacts of a resolver lie on lines of the same slope through their
  swept vertices. For such points, in exact arithmetic, the order of the values of
  \<open>Point_getDistance\<close> is the order of the Euclidean distances, so that the resolvers
  of the exact model return the candidate that the Euclidean distance would choose.
\<close>

lemma onSlope_distances:
  assumes "onSlope p q s" and "onSlope p' q' s"
  shows "Point_getDistance p q < Point_getDistance p' q' \<longleftrightarrow>
         euclidean_distance p q < euclidean_distance p' q'"
proof -
  define d where "d = x q - x p"
  define d' where "d' = x q' - x p'"
  have "y q - y p = s * d" "y q' - y p' = s * d'"
    using assms by (simp_all add: onSlope_def d_def d'_def)
  then have e: "(x q - x p) ^ 2 + (y q - y p) ^ 2 = (1 + s ^ 2) * d ^ 2"
    "(x q' - x p') ^ 2 + (y q' - y p') ^ 2 = (1 + s ^ 2) * d' ^ 2"
    by (simp_all add: d_def [symmetric] d'_def [symmetric] power_mult_distrib algebra_simps)
  have pos: "0 < 1 + s ^ 2"
    by (simp add: add_pos_nonneg)
  have "euclidean_distance p q < euclidean_distance p' q' \<longleftrightarrow>
      (1 + s ^ 2) * d ^ 2 < (1 + s ^ 2) * d' ^ 2"
    by (simp add: euclidean_distance_def e)
  also have "\<dots> \<longleftrightarrow> d ^ 2 < d' ^ 2"
    using pos by (simp add: mult_less_cancel_left_pos)
  also have "\<dots> \<longleftrightarrow> Point_getDistance p q < Point_getDistance p' q'"
    by (simp add: Point_getDistance_def d_def d'_def)
  finally show ?thesis by simp
qed

lemma onSlope_horizontal:
  "onSlope p (pt c ((c * s) + (y p - (x p * s)))) s"
  "onSlope p (pt c ((s * c) + (y p - (x p * s)))) s"
  by (simp_all add: onSlope_def pt_def algebra_simps)

lemma onSlope_vertical:
  "s \<noteq> 0 \<Longrightarrow> onSlope p (pt ((c - (y p - (x p * s))) / s) c) s"
  by (simp add: onSlope_def pt_def field_simps)

lemma wallHorizontalCol_onSlope:
  assumes "collides (wallHorizontalCol bl slope) \<noteq> 0"
  shows "onSlope (Ball_getVertex bl (testedVertex bl))
           (Collision.position (wallHorizontalCol bl slope)) slope"
  using assms
  by (simp add: wallHorizontalCol_def Let_def onSlope_horizontal noCollision_def
      split: if_splits)

lemma wallVerticalCol_onSlope:
  assumes "wallVerticalCol bl slope = Some vc" and "collides vc \<noteq> 0"
  shows "onSlope (Ball_getVertex bl (testedVertex bl)) (Collision.position vc) slope"
  using assms
  by (auto simp: wallVerticalCol_def Let_def onSlope_vertical noCollision_def fdiv_def
      split: if_splits)

lemma closestWallCollision_euclidean:
  assumes "wallVerticalCol bl slope = Some vc"
    and "collides (wallHorizontalCol bl slope) \<noteq> 0" and "collides vc \<noteq> 0"
  shows "closestWallCollision (Ball_getVertex bl (testedVertex bl))
           (wallHorizontalCol bl slope) vc =
         (if euclidean_distance (Ball_getVertex bl (testedVertex bl))
                (Collision.position (wallHorizontalCol bl slope))
             < euclidean_distance (Ball_getVertex bl (testedVertex bl)) (Collision.position vc)
          then wallHorizontalCol bl slope else vc)"
  using assms
    onSlope_distances [OF wallHorizontalCol_onSlope [OF assms(2)]
      wallVerticalCol_onSlope [OF assms(1) assms(3)]]
  by (simp add: closestWallCollision_def)

lemma horizontalTests_onSlope:
  assumes "collides (fst (horizontalTests bl pd slope sd vs st)) \<noteq> 0"
    and "collides (fst st) = 0"
  shows "onSlope (Ball_getVertex bl (snd (horizontalTests bl pd slope sd vs st)))
           (Collision.position (fst (horizontalTests bl pd slope sd vs st))) slope"
  using assms
proof (induction vs arbitrary: st)
  case Nil
  then show ?case by simp
next
  case (Cons v vs)
  obtain c cv where st: "st = (c, cv)" by (cases st)
  from Cons.prems(2) have c0: "collides c = 0" by (simp add: st)
  show ?case
    using Cons.prems(1) Cons.IH [of "(c, v)"] c0
    by (auto simp: st Let_def onSlope_horizontal split: if_splits)
qed

lemma verticalTests_onSlope:
  assumes "verticalTests bl pd slope sd vs st = Some r"
    and "collides (fst r) \<noteq> 0" and "collides (fst st) = 0"
  shows "onSlope (Ball_getVertex bl (snd r)) (Collision.position (fst r)) slope"
  using assms
proof (induction vs arbitrary: st)
  case Nil
  then show ?case by auto
next
  case (Cons v vs)
  obtain c cv where st: "st = (c, cv)" by (cases st)
  from Cons.prems(3) have c0: "collides c = 0" by (simp add: st)
  show ?case
    using Cons.prems(1,2) Cons.IH [of "(c, v)"] c0
    by (auto simp: st Let_def onSlope_vertical fdiv_def split: if_splits option.splits)
qed

lemma closestPaddleCollision_euclidean:
  assumes "hc = horizontalTests bl pd slope sd0 hvs (noCollision, 0)"
    and "verticalTests bl pd slope sd1 vvs (noCollision, 0) = Some vc"
    and "collides (fst hc) \<noteq> 0" and "collides (fst vc) \<noteq> 0"
  shows "closestPaddleCollision bl hc vc =
         (if euclidean_distance (Ball_getVertex bl (snd hc)) (Collision.position (fst hc))
             < euclidean_distance (Ball_getVertex bl (snd vc)) (Collision.position (fst vc))
          then hc else vc)"
proof -
  have h: "onSlope (Ball_getVertex bl (snd hc)) (Collision.position (fst hc)) slope"
    using assms(3) unfolding assms(1)
    by (rule horizontalTests_onSlope) (simp add: noCollision_def)
  have v: "onSlope (Ball_getVertex bl (snd vc)) (Collision.position (fst vc)) slope"
    using assms(2) assms(4)
    by (rule verticalTests_onSlope) (simp add: noCollision_def)
  show ?thesis
    using assms(3,4) onSlope_distances [OF h v]
    by (simp add: closestPaddleCollision_def Let_def prod_eq_iff)
qed

subsection \<open>Rounding to single precision\<close>

lemma round_even_of_int [simp]: "round_even (of_int n) = n"
  by (simp add: round_even_def)

lemma floor_log2_binade:
  assumes "2 powi e \<le> \<bar>r\<bar>" and "\<bar>r\<bar> < 2 powi (e + 1)"
  shows "\<lfloor>log 2 \<bar>r\<bar>\<rfloor> = e"
proof -
  have "0 < (2::real) powi e" by (rule zero_less_power_int) simp
  with assms(1) have pos: "0 < \<bar>r\<bar>" by linarith
  have "(2::real) powr real_of_int e = 2 powi e" "(2::real) powr real_of_int (e + 1) = 2 powi (e + 1)"
    by (rule powr_real_of_int'; simp)+
  with assms show ?thesis
    using floor_log_eq_powr_iff [of "\<bar>r\<bar>" 2 e] pos by simp
qed

lemma quantum_binade:
  assumes "2 powi e \<le> \<bar>r\<bar>" and "\<bar>r\<bar> < 2 powi (e + 1)"
  shows "quantum p emn r = 2 powi (max e emn - int p + 1)"
  by (simp add: quantum_def floor_log2_binade [OF assms])

lemma fl_binade:
  assumes "2 powi e \<le> \<bar>r\<bar>" and "\<bar>r\<bar> < 2 powi (e + 1)"
  shows "fl p emn r = of_int (round_even (r / 2 powi (max e emn - int p + 1)))
            * 2 powi (max e emn - int p + 1)"
proof -
  have "0 < (2::real) powi e" by (rule zero_less_power_int) simp
  with assms(1) have "0 < \<bar>r\<bar>" by linarith
  then have "r \<noteq> 0" by simp
  then show ?thesis
    by (simp add: fl_def quantum_binade [OF assms])
qed

lemma binade_exists:
  assumes "r \<noteq> 0"
  shows "2 powi \<lfloor>log 2 \<bar>r\<bar>\<rfloor> \<le> \<bar>r\<bar> \<and> \<bar>r\<bar> < 2 powi (\<lfloor>log 2 \<bar>r\<bar>\<rfloor> + 1)"
proof -
  have pos: "0 < \<bar>r\<bar>" using assms by simp
  have "(2::real) powr real_of_int \<lfloor>log 2 \<bar>r\<bar>\<rfloor> = 2 powi \<lfloor>log 2 \<bar>r\<bar>\<rfloor>"
    "(2::real) powr real_of_int (\<lfloor>log 2 \<bar>r\<bar>\<rfloor> + 1) = 2 powi (\<lfloor>log 2 \<bar>r\<bar>\<rfloor> + 1)"
    by (rule powr_real_of_int'; simp)+
  then show ?thesis
    using floor_log_eq_powr_iff [of "\<bar>r\<bar>" 2 "\<lfloor>log 2 \<bar>r\<bar>\<rfloor>"] pos by simp
qed

text \<open>A multiple of the quantum with a significand of at most p bits is not rounded.\<close>

lemma fl_representable:
  assumes r: "r = of_int m * 2 powi k" and m: "\<bar>m\<bar> < 2 ^ p" and k: "emn - int p + 1 \<le> k"
  shows "fl p emn r = r"
proof (cases "r = 0")
  case True
  then show ?thesis by (simp add: fl_def)
next
  case False
  define e where "e = \<lfloor>log 2 \<bar>r\<bar>\<rfloor>"
  define q where "q = max e emn - int p + 1"
  have b: "2 powi e \<le> \<bar>r\<bar>" "\<bar>r\<bar> < 2 powi (e + 1)"
    using binade_exists [OF False] by (simp_all add: e_def)
  have "\<bar>r\<bar> = of_int \<bar>m\<bar> * 2 powi k"
    by (simp add: r abs_mult)
  also have "\<dots> < 2 ^ p * 2 powi k"
  proof -
    have "real_of_int \<bar>m\<bar> < 2 ^ p" using m by (metis of_int_less_numeral_power_cancel_iff)
    then show ?thesis by (simp add: zero_less_power_int)
  qed
  also have "\<dots> = 2 powi (int p + k)"
    by (simp add: power_int_add)
  finally have "\<bar>r\<bar> < 2 powi (int p + k)" .
  with b(1) have "(2::real) powi e < 2 powi (int p + k)" by linarith
  then have "e < int p + k"
    using power_int_increasing [of "int p + k" e "2::real"] by (cases "e < int p + k") auto
  then have qk: "q \<le> k" using k by (simp add: q_def)
  then obtain d where d: "k = q + int d"
    by (metis nonneg_int_cases diff_ge_0_iff_ge add_diff_cancel_left' add.commute diff_add_cancel)
  have "r / 2 powi q = of_int m * 2 powi (k - q)"
    by (simp add: r power_int_diff)
  also have "\<dots> = of_int (m * 2 ^ d)"
    by (simp add: d power_int_def)
  finally have "r / 2 powi q = of_int (m * 2 ^ d)" .
  then have "of_int (round_even (r / 2 powi q)) * 2 powi q = r"
    by (metis round_even_of_int nonzero_eq_divide_eq power_int_eq_0_iff zero_neq_numeral)
  then show ?thesis
    using False by (simp add: fl_def quantum_def e_def [symmetric] q_def [symmetric])
qed

lemma round_even_le:
  assumes "z \<le> of_int N"
  shows "round_even z \<le> N"
proof -
  have "\<lfloor>z\<rfloor> \<le> N" using assms by (simp add: floor_le_iff)
  moreover have "\<lfloor>z\<rfloor> = N \<Longrightarrow> z - of_int \<lfloor>z\<rfloor> \<le> 0" using assms by simp
  ultimately show ?thesis
    by (cases "\<lfloor>z\<rfloor> = N") (auto simp: round_even_def Let_def)
qed

lemma round_even_ge:
  assumes "of_int N \<le> z"
  shows "N \<le> round_even z"
proof -
  have "N \<le> \<lfloor>z\<rfloor>" using assms by (simp add: le_floor_iff)
  then show ?thesis
    by (auto simp: round_even_def Let_def)
qed

lemma fl_idem:
  assumes "0 < p"
  shows "fl p emn (fl p emn r) = fl p emn r"
proof (cases "r = 0")
  case True
  then show ?thesis by (simp add: fl_def)
next
  case False
  define e where "e = \<lfloor>log 2 \<bar>r\<bar>\<rfloor>"
  define q where "q = max e emn - int p + 1"
  define n where "n = round_even (r / 2 powi q)"
  have b: "2 powi e \<le> \<bar>r\<bar>" "\<bar>r\<bar> < 2 powi (e + 1)"
    using binade_exists [OF False] by (simp_all add: e_def)
  have flr: "fl p emn r = of_int n * 2 powi q"
    using False by (simp add: fl_def quantum_def e_def [symmetric] q_def [symmetric] n_def)
  have qpos: "0 < (2::real) powi q" by (rule zero_less_power_int) simp
  have "e + 1 \<le> q + int p" by (simp add: q_def)
  then have "(2::real) powi (e + 1) \<le> 2 powi (q + int p)"
    by (intro power_int_increasing) simp_all
  also have "\<dots> = 2 powi q * 2 ^ p" by (simp add: power_int_add)
  finally have "\<bar>r\<bar> < 2 powi q * 2 ^ p" using b(2) by linarith
  then have "\<bar>r\<bar> / 2 powi q < 2 ^ p"
    using qpos by (simp add: field_simps)
  moreover have "\<bar>r / 2 powi q\<bar> = \<bar>r\<bar> / 2 powi q"
    using qpos by (simp add: abs_divide)
  ultimately have "\<bar>r / 2 powi q\<bar> < 2 ^ p" by simp
  then have "r / 2 powi q \<le> 2 ^ p" "- (2 ^ p) \<le> r / 2 powi q"
    by linarith+
  then have ub: "r / 2 powi q \<le> of_int (2 ^ p)" and lb: "of_int (- (2 ^ p)) \<le> r / 2 powi q"
    by simp_all
  have "n \<le> 2 ^ p" unfolding n_def using ub by (rule round_even_le)
  moreover have "- (2 ^ p) \<le> n" unfolding n_def using lb by (rule round_even_ge)
  ultimately have "n \<le> 2 ^ p" "- (2 ^ p) \<le> n" .
  then consider "\<bar>n\<bar> < 2 ^ p" | "n = 2 ^ p" | "n = - (2 ^ p)" by linarith
  then show ?thesis
  proof cases
    case 1
    have "fl p emn (of_int n * 2 powi q) = of_int n * 2 powi q"
      by (rule fl_representable [OF refl 1]) (simp add: q_def)
    then show ?thesis by (simp add: flr)
  next
    case 2
    have one: "\<bar>1::int\<bar> < 2 ^ p" using assms by simp
    have "of_int n * 2 powi q = of_int 1 * (2::real) powi (q + int p)"
      by (simp add: 2 power_int_add)
    moreover have "fl p emn (of_int 1 * 2 powi (q + int p)) = of_int 1 * 2 powi (q + int p)"
      by (rule fl_representable [OF refl one]) (simp add: q_def)
    ultimately show ?thesis by (simp add: flr)
  next
    case 3
    have one: "\<bar>- 1::int\<bar> < 2 ^ p" using assms by simp
    have "of_int n * 2 powi q = of_int (- 1) * (2::real) powi (q + int p)"
      by (simp add: 3 power_int_add)
    moreover have "fl p emn (of_int (- 1) * 2 powi (q + int p))
        = of_int (- 1) * 2 powi (q + int p)"
      by (rule fl_representable [OF refl one]) (simp add: q_def)
    ultimately show ?thesis by (simp add: flr)
  qed
qed

lemma fl_0 [simp]: "fl p emn 0 = 0"
  by (simp add: fl_def)

lemma fl_of_int:
  assumes "\<bar>n\<bar> < 2 ^ p" and "emn - int p + 1 \<le> 0"
  shows "fl p emn (of_int n) = of_int n"
  using fl_representable [of "of_int n" n 0 p emn] assms by simp

lemmas fval_defs = rnd_def single_def double_def is_inf_def is_zero_def is_finite_def val_def
  signbit_def signed_inf_def signed_zero_def fneg_def add_g_def mul_g_def div_g_def
  fadd_def fsub_def fmul_def fdivide_def fle_def flt_def feq_def Let_def

lemma fl32_int: "\<bar>n\<bar> < 2 ^ 24 \<Longrightarrow> fl 24 (- 126) (of_int n) = of_int n"
  by (rule fl_of_int) simp_all

lemma fl32_numeral [simp]:
  "(numeral w :: int) < 2 ^ 24 \<Longrightarrow> fl 24 (- 126) (numeral w) = numeral w"
  using fl32_int [of "numeral w"] by simp

lemma fl32_neg_numeral [simp]:
  "(numeral w :: int) < 2 ^ 24 \<Longrightarrow> fl 24 (- 126) (- numeral w) = - numeral w"
  using fl32_int [of "- numeral w"] by simp

lemma fl32_1 [simp]: "fl 24 (- 126) 1 = 1"
  using fl32_int [of 1] by simp

lemma fl32_dyadic:
  assumes "\<bar>m\<bar> < 2 ^ 24" and "k \<le> 149"
  shows "fl 24 (- 126) (of_int m / 2 ^ k) = of_int m / 2 ^ k"
proof -
  have "of_int m / (2::real) ^ k = of_int m * 2 powi (- int k)"
    by (simp add: power_int_minus field_simps)
  moreover have "- 126 - int 24 + 1 \<le> - int k" using assms(2) by simp
  ultimately show ?thesis
    using fl_representable [of "of_int m / 2 ^ k" m "- int k" 24 "- 126"] assms(1) by simp
qed

lemmas fmodel_defs = fpt_def F_WINDOW_WIDTH_def F_WINDOW_HEIGHT_def F_BALL_SIZE_def
  F_PADDLE_WIDTH_def F_PADDLE_HEIGHT_def MIN_f_def MAX_f_def Ball_getVertex_f_def
  Ball_getBound_f_def Paddle_getBound_f_def noCollision_f_def correctedPosition_f_def
  wallHorizontalSide_f_def wallHorizontalBound_f_def wallVerticalSide_f_def
  wallVerticalBound_f_def testedVertex_f_def wallNextPos_f_def wallHorizontalCol_f_def
  wallVerticalCol_f_def closestWallCollision_f_def getWallCollision_f_def
  TOP_def RIGHT_def BOTTOM_def LEFT_def

lemma fl32_half: "fl 24 (- 126) (1 / 2) = 1 / 2"
  using fl32_dyadic [of 1 1] by simp

lemma fl32_tie_516: "fl 24 (- 126) (16908289 / 32768) = 516"
proof -
  have "fl 24 (- 126) (16908289 / 32768)
      = of_int (round_even ((16908289 / 32768) / 2 powi (max 9 (- 126) - int 24 + 1)))
          * 2 powi (max 9 (- 126) - int 24 + 1)"
    by (rule fl_binade) simp_all
  also have "\<dots> = 516"
    by (simp add: round_even_def Let_def)
  finally show ?thesis .
qed

lemma v40_facts:
  "fl 24 (- 126) (16220161 / 32768) = 16220161 / 32768"
  "fl 24 (- 126) (16285697 / 32768) = 16285697 / 32768"
  "fl 24 (- 126) (3145729 / 32768) = 3145729 / 32768"
  "fl 24 (- 126) (16252929 / 32768) = 16252929 / 32768"
  "fl 24 (- 126) (655359 / 32768) = 655359 / 32768"
  "fl 24 (- 126) (7798785 / 16384) = 7798785 / 16384"
  "fl 24 (- 126) (8126465 / 16384) = 8126465 / 16384"
  using fl32_dyadic [of 16220161 15] fl32_dyadic [of 16285697 15] fl32_dyadic [of 3145729 15]
    fl32_dyadic [of 16252929 15] fl32_dyadic [of 655359 15] fl32_dyadic [of 7798785 14]
    fl32_dyadic [of 8126465 14]
  by simp_all

lemma single_Fin:
  "single neg r =
     (if 2 ^ 128 \<le> \<bar>fl 24 (- 126) r\<bar> then (if 0 < fl 24 (- 126) r then PInf else NInf)
      else if fl 24 (- 126) r = 0 then (if neg then NegZero else Fin 0)
      else Fin (fl 24 (- 126) r))"
  by (simp add: single_def rnd_def Let_def)

lemma fadd_Fin:
  "fadd (Fin u) (Fin v) = (if u + v = 0 then Fin 0 else single (u + v < 0) (u + v))"
  by (simp add: fadd_def add_g_def is_inf_def val_def)

lemma fsub_Fin:
  "fsub (Fin u) (Fin v) = (if u - v = 0 then Fin 0 else single (u - v < 0) (u - v))"
  by (simp add: fsub_def add_g_def is_inf_def val_def fneg_def)

lemma fmul_Fin:
  "fmul (Fin u) (Fin v) = single ((u < 0) \<noteq> (v < 0)) (u * v)"
  by (simp add: fmul_def mul_g_def is_inf_def is_zero_def val_def signbit_def)

lemma fdivide_Fin:
  "v \<noteq> 0 \<Longrightarrow> fdivide (Fin u) (Fin v) = single ((u < 0) \<noteq> (v < 0)) (u / v)"
  by (simp add: fdivide_def div_g_def is_inf_def is_zero_def val_def signbit_def)

lemma fcmp_Fin:
  "fle (Fin u) (Fin v) = (u \<le> v)" "flt (Fin u) (Fin v) = (u < v)" "feq (Fin u) (Fin v) = (u = v)"
  by (simp_all add: fle_def flt_def feq_def is_finite_def val_def)

lemmas fin_eval = single_Fin fadd_Fin fsub_Fin fmul_Fin fdivide_Fin fcmp_Fin

lemma single_is_float32: "is_float32 (single neg r)"
proof -
  have "fl 24 (- 126) (fl 24 (- 126) r) = fl 24 (- 126) r"
    by (rule fl_idem) simp
  then show ?thesis
    by (simp add: single_Fin is_float32_def)
qed

lemma is_float32_special:
  "is_float32 NaN" "is_float32 PInf" "is_float32 NInf" "is_float32 NegZero" "is_float32 (Fin 0)"
  by (simp_all add: is_float32_def)

lemma fadd_is_float32: "is_float32 (fadd u v)"
  by (simp add: fadd_def add_g_def single_is_float32 is_float32_special is_inf_def)

lemma fdivide_is_float32: "is_float32 (fdivide u v)"
  by (simp add: fdivide_def div_g_def single_is_float32 is_float32_special is_inf_def
      signed_inf_def signed_zero_def)

lemma finite_cases:
  assumes "is_finite c"
  obtains r where "c = Fin r" | "c = NegZero"
  using assms by (cases c) (auto simp: is_finite_def)

lemma snap_no_offset:
  assumes "is_finite c" and "is_float32 c"
  shows "fsub c (fsub c c) = c"
  using assms(1)
proof (cases rule: finite_cases)
  case (1 r)
  with assms(2) have f: "fl 24 (- 126) r = r" "\<bar>r\<bar> < 2 ^ 128" by (simp_all add: is_float32_def)
  have "fsub c c = Fin 0" by (simp add: 1 fsub_Fin)
  then show ?thesis
    using f by (simp add: 1 fsub_Fin single_Fin)
next
  case 2
  then show ?thesis
    by (simp add: fsub_def add_g_def fneg_def is_inf_def val_def)
qed

lemma fl32_20: "fl 24 (- 126) 20 = 20"
  by simp

lemma snap_offset:
  assumes "is_float32 c" and "exactShift c F_BALL_SIZE"
  shows "feq (fadd (fsub c (fsub (fadd c F_BALL_SIZE) c)) F_BALL_SIZE) c"
proof -
  from assms(2) have fin: "is_finite c"
    and a: "fadd c (Fin 20) = Fin (val c + 20)"
    and s: "fsub c (Fin 20) = Fin (val c - 20)"
    by (simp_all add: exactShift_def F_BALL_SIZE_def val_def)
  have b: "fsub (Fin (val c + 20)) c = Fin 20"
    using fin
  proof (cases rule: finite_cases)
    case (1 r)
    then show ?thesis by (simp add: fsub_Fin single_Fin val_def)
  next
    case 2
    then show ?thesis
      by (simp add: fsub_def add_g_def fneg_def is_inf_def val_def single_Fin)
  qed
  have "feq (fadd (Fin (val c - 20)) (Fin 20)) c"
    using fin
  proof (cases rule: finite_cases)
    case (1 r)
    with assms(1) have f: "fl 24 (- 126) r = r" "\<bar>r\<bar> < 2 ^ 128"
      by (simp_all add: is_float32_def)
    then show ?thesis
      by (simp add: 1 fadd_Fin single_Fin val_def fcmp_Fin feq_def is_finite_def)
  next
    case 2
    then show ?thesis
      by (simp add: fadd_Fin val_def feq_def is_finite_def)
  qed
  then show ?thesis
    by (simp add: F_BALL_SIZE_def a b s)
qed

subsection \<open>Snap to contact\<close>

lemma snapped_x_no_offset:
  assumes "fcollides c \<noteq> 0" and "v = 0 \<or> v = 3"
    and "is_finite (fx (fcontact c))" and "is_float32 (fx (fcontact c))"
  shows "fx (snappedVertex c v np sp) = fx (fcontact c)"
  using assms(1,2) snap_no_offset [OF assms(3,4)]
  by (auto simp: snappedVertex_def correctedPosition_f_def Ball_getVertex_f_def fpt_def Let_def)

lemma snapped_y_no_offset:
  assumes "fcollides c \<noteq> 0" and "v = 0 \<or> v = 1"
    and "is_finite (fy (fcontact c))" and "is_float32 (fy (fcontact c))"
  shows "fy (snappedVertex c v np sp) = fy (fcontact c)"
  using assms(1,2) snap_no_offset [OF assms(3,4)]
  by (auto simp: snappedVertex_def correctedPosition_f_def Ball_getVertex_f_def fpt_def Let_def)

lemma snapped_x_offset:
  assumes "fcollides c \<noteq> 0" and "v = 1 \<or> v = 2"
    and "is_float32 (fx (fcontact c))" and "exactShift (fx (fcontact c)) F_BALL_SIZE"
  shows "feq (fx (snappedVertex c v np sp)) (fx (fcontact c))"
  using assms(1,2) snap_offset [OF assms(3,4)]
  by (auto simp: snappedVertex_def correctedPosition_f_def Ball_getVertex_f_def fpt_def Let_def)

lemma snapped_y_offset:
  assumes "fcollides c \<noteq> 0" and "v = 2 \<or> v = 3"
    and "is_float32 (fy (fcontact c))" and "exactShift (fy (fcontact c)) F_BALL_SIZE"
  shows "feq (fy (snappedVertex c v np sp)) (fy (fcontact c))"
  using assms(1,2) snap_offset [OF assms(3,4)]
  by (auto simp: snappedVertex_def correctedPosition_f_def Ball_getVertex_f_def fpt_def Let_def)

lemma is_float32_bounds:
  "is_float32 F_WINDOW_WIDTH" "is_float32 F_WINDOW_HEIGHT"
  by (simp_all add: is_float32_def F_WINDOW_WIDTH_def F_WINDOW_HEIGHT_def)

lemma wallHorizontalCol_f_float:
  "fcollides (wallHorizontalCol_f bl slope) \<noteq> 0 \<Longrightarrow>
   floatPoint (fcontact (wallHorizontalCol_f bl slope))"
  by (simp add: wallHorizontalCol_f_def Let_def noCollision_f_def floatPoint_def fpt_def
      wallHorizontalBound_f_def is_float32_bounds is_float32_special fadd_is_float32
      split: if_splits)

lemma wallVerticalCol_f_float:
  "fcollides (wallVerticalCol_f bl slope) \<noteq> 0 \<Longrightarrow>
   floatPoint (fcontact (wallVerticalCol_f bl slope))"
  by (simp add: wallVerticalCol_f_def Let_def noCollision_f_def floatPoint_def fpt_def
      wallVerticalBound_f_def is_float32_bounds is_float32_special fdivide_is_float32
      split: if_splits)

lemma closestWallCollision_f_cases:
  "closestWallCollision_f p hc vc = hc \<and> fcollides hc \<noteq> 0 \<or>
   closestWallCollision_f p hc vc = vc \<and> fcollides vc \<noteq> 0 \<or>
   closestWallCollision_f p hc vc = noCollision_f \<and> fcollides hc = 0 \<and> fcollides vc = 0"
  by (simp add: closestWallCollision_f_def)

lemma getWallCollision_f_result:
  assumes "getWallCollision_f bl np = (c, np')" and "fcollides c \<noteq> 0"
  shows "floatPoint (fcontact c) \<and> np' = correctedPosition_f c (testedVertex_f bl) np"
proof -
  have nz: "\<not> feq (fx (fspeed bl)) (Fin 0)"
    using assms by (auto simp: getWallCollision_f_def noCollision_f_def)
  define slope where "slope = fdivide (fy (fspeed bl)) (fx (fspeed bl))"
  define hc where "hc = wallHorizontalCol_f bl slope"
  define vc where "vc = wallVerticalCol_f bl slope"
  have c: "c = closestWallCollision_f (Ball_getVertex_f bl (testedVertex_f bl)) hc vc"
    and np': "np' = correctedPosition_f c (testedVertex_f bl) np"
    using assms(1) nz by (auto simp: getWallCollision_f_def Let_def slope_def hc_def vc_def)
  from closestWallCollision_f_cases [of "Ball_getVertex_f bl (testedVertex_f bl)" hc vc]
    assms(2) c
  consider "c = hc" "fcollides hc \<noteq> 0" | "c = vc" "fcollides vc \<noteq> 0"
    by (auto simp: noCollision_f_def)
  then have "floatPoint (fcontact c)"
  proof cases
    case 1
    then show ?thesis using wallHorizontalCol_f_float [of bl slope] by (simp add: hc_def)
  next
    case 2
    then show ?thesis using wallVerticalCol_f_float [of bl slope] by (simp add: vc_def)
  qed
  with np' show ?thesis by simp
qed

lemma testedVertex_f_range: "testedVertex_f bl \<in> {0, 1, 2, 3}"
  by (simp add: testedVertex_f_def)

lemma Paddle_getBound_f_float:
  "floatPaddle pd \<Longrightarrow> is_float32 (Paddle_getBound_f pd sd)"
  by (simp add: Paddle_getBound_f_def floatPaddle_def floatPoint_def fadd_is_float32
      is_float32_special)

lemma horizontalTests_f_result:
  assumes "fcollides (fst (horizontalTests_f bl pd slope sd vs st)) \<noteq> 0"
    and "fcollides (fst st) = 0" and "floatPaddle pd"
  shows "snd (horizontalTests_f bl pd slope sd vs st) \<in> set vs \<and>
         floatPoint (fcontact (fst (horizontalTests_f bl pd slope sd vs st)))"
  using assms(1,2)
proof (induction vs arbitrary: st)
  case Nil
  then show ?case by simp
next
  case (Cons v vs)
  obtain c cv where st: "st = (c, cv)" by (cases st)
  from Cons.prems(2) have c0: "fcollides c = 0" by (simp add: st)
  show ?case
    using Cons.prems(1) Cons.IH [of "(c, v)"] c0
    by (auto simp: st Let_def floatPoint_def fpt_def fadd_is_float32
        Paddle_getBound_f_float [OF assms(3)] split: if_splits)
qed

lemma verticalTests_f_result:
  assumes "fcollides (fst (verticalTests_f bl pd slope sd vs st)) \<noteq> 0"
    and "fcollides (fst st) = 0" and "floatPaddle pd"
  shows "snd (verticalTests_f bl pd slope sd vs st) \<in> set vs \<and>
         floatPoint (fcontact (fst (verticalTests_f bl pd slope sd vs st)))"
  using assms(1,2)
proof (induction vs arbitrary: st)
  case Nil
  then show ?case by simp
next
  case (Cons v vs)
  obtain c cv where st: "st = (c, cv)" by (cases st)
  from Cons.prems(2) have c0: "fcollides c = 0" by (simp add: st)
  show ?case
    using Cons.prems(1) Cons.IH [of "(c, v)"] c0
    by (auto simp: st Let_def floatPoint_def fpt_def fdivide_is_float32
        Paddle_getBound_f_float [OF assms(3)] split: if_splits)
qed

lemma closestPaddleCollision_f_cases:
  "closestPaddleCollision_f bl hc vc = hc \<and> fcollides (fst hc) \<noteq> 0 \<or>
   closestPaddleCollision_f bl hc vc = vc \<and> fcollides (fst vc) \<noteq> 0 \<or>
   closestPaddleCollision_f bl hc vc = (noCollision_f, 0) \<and>
     fcollides (fst hc) = 0 \<and> fcollides (fst vc) = 0"
  by (simp add: closestPaddleCollision_f_def Let_def prod_eq_iff)

lemma getPaddleCollision_vf_result:
  assumes "getPaddleCollision_vf bl pd np = (c, np', v)" and "fcollides c \<noteq> 0"
    and "floatPaddle pd"
  shows "v \<in> {0, 1, 2, 3} \<and> floatPoint (fcontact c) \<and> np' = correctedPosition_f c v np"
proof -
  have "feq (fx (fspeed bl)) (Fin 0) \<Longrightarrow>
      getPaddleCollision_vf bl pd np = (noCollision_f, np, 0)"
    by (simp add: getPaddleCollision_vf_def)
  with assms(1,2) have nz: "\<not> feq (fx (fspeed bl)) (Fin 0)"
    by (auto simp: noCollision_f_def)
  have "paddleRejectX_f bl pd \<or> paddleRejectY_f bl pd \<Longrightarrow>
      getPaddleCollision_vf bl pd np = (noCollision_f, np, 0)"
    by (auto simp: getPaddleCollision_vf_def Let_def
        simp del: horizontalTests_f.simps verticalTests_f.simps)
  with assms(1,2) have nrj: "\<not> paddleRejectX_f bl pd" "\<not> paddleRejectY_f bl pd"
    by (auto simp: noCollision_f_def)
  define slope where "slope = fdivide (fy (fspeed bl)) (fx (fspeed bl))"
  define hvs :: "int list" where
    "hvs = (if fle (Fin 0) (fx (fspeed bl)) then [1, 2] else [0, 3])"
  define vvs :: "int list" where
    "vvs = (if fle (Fin 0) (fy (fspeed bl)) then [2, 3] else [0, 1])"
  define hc where "hc = horizontalTests_f bl pd slope
     (if fle (Fin 0) (fx (fspeed bl)) then LEFT else RIGHT) hvs (noCollision_f, 0)"
  define vc where "vc = verticalTests_f bl pd slope
     (if fle (Fin 0) (fy (fspeed bl)) then TOP else BOTTOM) vvs (noCollision_f, 0)"
  define rc where "rc = closestPaddleCollision_f bl hc vc"
  have res: "getPaddleCollision_vf bl pd np
      = (fst rc, correctedPosition_f (fst rc) (snd rc) np, snd rc)"
    using nz nrj
    by (simp add: getPaddleCollision_vf_def Let_def slope_def hvs_def vvs_def hc_def vc_def
        rc_def del: horizontalTests_f.simps verticalTests_f.simps)
  with assms(1) have c: "c = fst rc" and v: "v = snd rc"
    and np': "np' = correctedPosition_f c v np" by auto
  have h: "fcollides (fst hc) \<noteq> 0 \<Longrightarrow> snd hc \<in> {0, 1, 2, 3} \<and> floatPoint (fcontact (fst hc))"
  proof -
    assume "fcollides (fst hc) \<noteq> 0"
    then have "snd hc \<in> set hvs \<and> floatPoint (fcontact (fst hc))"
      unfolding hc_def
      by (rule horizontalTests_f_result) (simp_all add: noCollision_f_def assms(3))
    then show ?thesis by (auto simp: hvs_def split: if_splits)
  qed
  have vv: "fcollides (fst vc) \<noteq> 0 \<Longrightarrow> snd vc \<in> {0, 1, 2, 3} \<and> floatPoint (fcontact (fst vc))"
  proof -
    assume "fcollides (fst vc) \<noteq> 0"
    then have "snd vc \<in> set vvs \<and> floatPoint (fcontact (fst vc))"
      unfolding vc_def
      by (rule verticalTests_f_result) (simp_all add: noCollision_f_def assms(3))
    then show ?thesis by (auto simp: vvs_def split: if_splits)
  qed
  from closestPaddleCollision_f_cases [of bl hc vc] assms(2) c
  consider "rc = hc" "fcollides (fst hc) \<noteq> 0" | "rc = vc" "fcollides (fst vc) \<noteq> 0"
    by (auto simp: rc_def noCollision_f_def)
  then have "snd rc \<in> {0, 1, 2, 3} \<and> floatPoint (fcontact (fst rc))"
  proof cases
    case 1
    with h show ?thesis by simp
  next
    case 2
    with vv show ?thesis by simp
  qed
  with c v np' show ?thesis by simp
qed

lemma snapsToContact_corrected:
  assumes col: "fcollides c \<noteq> 0" and v: "v \<in> {0, 1, 2, 3}" and fp: "floatPoint (fcontact c)"
  shows "snapsToContact c (correctedPosition_f c v np) v"
proof -
  have sv: "Ball_getVertex_f
       \<lparr>fposition = correctedPosition_f c v np, fspeed = fpt (Fin 0) (Fin 0)\<rparr> v
     = snappedVertex c v np (fpt (Fin 0) (Fin 0))"
    by (simp add: snappedVertex_def)
  from fp have fl: "is_float32 (fx (fcontact c))" "is_float32 (fy (fcontact c))"
    by (simp_all add: floatPoint_def)
  show ?thesis
    unfolding snapsToContact_def sv
    using v snapped_x_no_offset [OF col _ _ fl(1), of v np "fpt (Fin 0) (Fin 0)"]
      snapped_y_no_offset [OF col _ _ fl(2), of v np "fpt (Fin 0) (Fin 0)"]
      snapped_x_offset [OF col _ fl(1), of v np "fpt (Fin 0) (Fin 0)"]
      snapped_y_offset [OF col _ fl(2), of v np "fpt (Fin 0) (Fin 0)"]
    by blast
qed

lemmas fpaddle_defs = paddleRejectX_f_def paddleRejectY_f_def closestPaddleCollision_f_def
  getPaddleCollision_vf_def getPaddleCollision_f_def

text \<open>
  C8, as stated, fails. The corrected position is computed back from the contact point
  with rounded operations, and the vertex recomputed from it can miss the contact point.
  A ball at (778, 475 + 2^-15) with velocity (4,2) meets the right wall with its vertex 2
  at the contact point (800, 496 + 2^-15). The offset \<open>(contact.y + 20) - contact.y\<close> is
  the rounded difference \<open>516 - (496 + 2^-15)\<close>, with \<open>516\<close> the rounded value of
  \<open>516 + 2^-15\<close>; the corrected position is (780, 476 + 2^-14), and vertex 2 of a ball
  placed there is (800, 496 + 2^-14): its y-coordinate is not that of the contact point.
\<close>

theorem snap_to_contact_rounding_counterexample:
  "is_float32 (Fin 778) \<and> is_float32 (Fin (15564801 / 32768)) \<and>
   is_float32 (Fin 4) \<and> is_float32 (Fin 2) \<and>
   getWallCollision_f
     \<lparr>fposition = fpt (Fin 778) (Fin (15564801 / 32768)), fspeed = fpt (Fin 4) (Fin 2)\<rparr>
     (fpt (Fin 0) (Fin 0))
     = (\<lparr>fcollides = 1, fcontact = fpt (Fin 800) (Fin (16252929 / 32768)), fside = RIGHT\<rparr>,
        fpt (Fin 780) (Fin (7798785 / 16384))) \<and>
   testedVertex_f
     \<lparr>fposition = fpt (Fin 778) (Fin (15564801 / 32768)), fspeed = fpt (Fin 4) (Fin 2)\<rparr> = 2 \<and>
   Ball_getVertex_f
     \<lparr>fposition = fpt (Fin 780) (Fin (7798785 / 16384)), fspeed = fpt (Fin 0) (Fin 0)\<rparr> 2
     = fpt (Fin 800) (Fin (8126465 / 16384)) \<and>
   \<not> feq (Fin (8126465 / 16384)) (Fin (16252929 / 32768))"
proof -
  have i: "is_float32 (Fin 778) \<and> is_float32 (Fin (15564801 / 32768)) \<and>
      is_float32 (Fin 4) \<and> is_float32 (Fin 2)"
    using fl32_dyadic [of 15564801 15] by (simp add: is_float32_def)
  have w: "getWallCollision_f
     \<lparr>fposition = fpt (Fin 778) (Fin (15564801 / 32768)), fspeed = fpt (Fin 4) (Fin 2)\<rparr>
     (fpt (Fin 0) (Fin 0))
     = (\<lparr>fcollides = 1, fcontact = fpt (Fin 800) (Fin (16252929 / 32768)), fside = RIGHT\<rparr>,
        fpt (Fin 780) (Fin (7798785 / 16384)))"
    by (simp add: fmodel_defs fin_eval Let_def fl32_half v40_facts fl32_tie_516)
  have t: "testedVertex_f
     \<lparr>fposition = fpt (Fin 778) (Fin (15564801 / 32768)), fspeed = fpt (Fin 4) (Fin 2)\<rparr> = 2"
    by (simp add: fmodel_defs fin_eval)
  have v: "Ball_getVertex_f
     \<lparr>fposition = fpt (Fin 780) (Fin (7798785 / 16384)), fspeed = fpt (Fin 0) (Fin 0)\<rparr> 2
     = fpt (Fin 800) (Fin (8126465 / 16384))"
    by (simp add: fmodel_defs fin_eval v40_facts)
  have n: "\<not> feq (Fin (8126465 / 16384)) (Fin (16252929 / 32768))"
    by (simp add: fcmp_Fin)
  from i w t v n show ?thesis by simp
qed

text \<open>
  C8, amended. Whenever a resolver reports a collision (for the paddle resolver, with a
  paddle whose coordinates are floats), the corrected position it writes to the
  out-parameter and the colliding vertex satisfy \<open>snapsToContact\<close>: the colliding
  vertex is one of 0..3 (the local \<^verbatim>\<open>collisionVertex\<close> of the paddle resolver,
  \<^verbatim>\<open>testedVertex\<close> of the wall resolver); in each coordinate in which that vertex
  has no offset from the ball's position, the vertex of a ball whose top-left corner is
  the corrected position has exactly the contact's finite coordinate; in each coordinate
  in which the vertex is offset by \<^verbatim>\<open>BALL_SIZE\<close>, it compares equal to the
  contact's coordinate provided that adding 20 to that coordinate and subtracting 20
  from it are exact. Without that proviso the vertex can miss the contact point, as
  above.
\<close>

theorem snap_to_contact:
  "(getPaddleCollision_vf bl pd np = (c, np', v) \<and> fcollides c \<noteq> 0 \<and> floatPaddle pd \<longrightarrow>
      snapsToContact c np' v) \<and>
   (getWallCollision_f bl np = (c, np') \<and> fcollides c \<noteq> 0 \<longrightarrow>
      snapsToContact c np' (testedVertex_f bl))"
proof (rule conjI; rule impI)
  assume h: "getPaddleCollision_vf bl pd np = (c, np', v) \<and> fcollides c \<noteq> 0 \<and> floatPaddle pd"
  then have "v \<in> {0, 1, 2, 3} \<and> floatPoint (fcontact c) \<and> np' = correctedPosition_f c v np"
    using getPaddleCollision_vf_result [of bl pd np c np' v] by simp
  with h show "snapsToContact c np' v"
    by (simp add: snapsToContact_corrected)
next
  assume h: "getWallCollision_f bl np = (c, np') \<and> fcollides c \<noteq> 0"
  then have "floatPoint (fcontact c) \<and> np' = correctedPosition_f c (testedVertex_f bl) np"
    using getWallCollision_f_result [of bl np c np'] by simp
  with h testedVertex_f_range [of bl] show "snapsToContact c np' (testedVertex_f bl)"
    by (simp add: snapsToContact_corrected)
qed

lemma exactShift_int:
  "exactShift (Fin 800) F_BALL_SIZE" "exactShift (Fin 700) F_BALL_SIZE"
  "exactShift (Fin 496) F_BALL_SIZE"
  by (simp_all add: exactShift_def is_finite_def F_BALL_SIZE_def fin_eval val_def)

lemma eval_paddle_f:
  "getPaddleCollision_vf \<lparr>fposition = fpt (Fin 678) (Fin 290), fspeed = fpt (Fin 4) (Fin 2)\<rparr>
     \<lparr>pposition = fpt (Fin 700) (Fin 250), pscore = 0\<rparr> (fpt (Fin 0) (Fin 0))
   = (\<lparr>fcollides = 1, fcontact = fpt (Fin 700) (Fin 291), fside = LEFT\<rparr>,
      fpt (Fin 680) (Fin 291), 1)"
  by (simp add: fpaddle_defs fmodel_defs fin_eval Let_def fl32_half)

lemma eval_wall_f:
  "getWallCollision_f \<lparr>fposition = fpt (Fin 778) (Fin 475), fspeed = fpt (Fin 4) (Fin 2)\<rparr>
     (fpt (Fin 0) (Fin 0))
   = (\<lparr>fcollides = 1, fcontact = fpt (Fin 800) (Fin 496), fside = RIGHT\<rparr>,
      fpt (Fin 780) (Fin 476))"
  by (simp add: fmodel_defs fin_eval Let_def fl32_half)

theorem snap_to_contact_witness:
  "getPaddleCollision_vf \<lparr>fposition = fpt (Fin 678) (Fin 290), fspeed = fpt (Fin 4) (Fin 2)\<rparr>
     \<lparr>pposition = fpt (Fin 700) (Fin 250), pscore = 0\<rparr> (fpt (Fin 0) (Fin 0))
     = (\<lparr>fcollides = 1, fcontact = fpt (Fin 700) (Fin 291), fside = LEFT\<rparr>,
        fpt (Fin 680) (Fin 291), 1) \<and>
   floatPaddle \<lparr>pposition = fpt (Fin 700) (Fin 250), pscore = 0\<rparr> \<and>
   exactShift (Fin 700) F_BALL_SIZE \<and>
   feq (fx (Ball_getVertex_f
              \<lparr>fposition = fpt (Fin 680) (Fin 291), fspeed = fpt (Fin 0) (Fin 0)\<rparr> 1))
       (Fin 700) \<and>
   fy (Ball_getVertex_f \<lparr>fposition = fpt (Fin 680) (Fin 291), fspeed = fpt (Fin 0) (Fin 0)\<rparr> 1)
     = Fin 291 \<and>
   getWallCollision_f \<lparr>fposition = fpt (Fin 778) (Fin 475), fspeed = fpt (Fin 4) (Fin 2)\<rparr>
     (fpt (Fin 0) (Fin 0))
     = (\<lparr>fcollides = 1, fcontact = fpt (Fin 800) (Fin 496), fside = RIGHT\<rparr>,
        fpt (Fin 780) (Fin 476)) \<and>
   testedVertex_f \<lparr>fposition = fpt (Fin 778) (Fin 475), fspeed = fpt (Fin 4) (Fin 2)\<rparr> = 2 \<and>
   exactShift (Fin 800) F_BALL_SIZE \<and> exactShift (Fin 496) F_BALL_SIZE \<and>
   feq (fx (Ball_getVertex_f
              \<lparr>fposition = fpt (Fin 780) (Fin 476), fspeed = fpt (Fin 0) (Fin 0)\<rparr> 2))
       (Fin 800) \<and>
   feq (fy (Ball_getVertex_f
              \<lparr>fposition = fpt (Fin 780) (Fin 476), fspeed = fpt (Fin 0) (Fin 0)\<rparr> 2))
       (Fin 496)"
proof -
  have fp: "floatPaddle \<lparr>pposition = fpt (Fin 700) (Fin 250), pscore = 0\<rparr>"
    by (simp add: floatPaddle_def floatPoint_def fpt_def is_float32_def)
  have t: "testedVertex_f
      \<lparr>fposition = fpt (Fin 778) (Fin 475), fspeed = fpt (Fin 4) (Fin 2)\<rparr> = 2"
    by (simp add: fmodel_defs fin_eval)
  have p: "snapsToContact \<lparr>fcollides = 1, fcontact = fpt (Fin 700) (Fin 291), fside = LEFT\<rparr>
      (fpt (Fin 680) (Fin 291)) 1"
    using snap_to_contact [of
        "\<lparr>fposition = fpt (Fin 678) (Fin 290), fspeed = fpt (Fin 4) (Fin 2)\<rparr>"
        "\<lparr>pposition = fpt (Fin 700) (Fin 250), pscore = 0\<rparr>" "fpt (Fin 0) (Fin 0)"
        "\<lparr>fcollides = 1, fcontact = fpt (Fin 700) (Fin 291), fside = LEFT\<rparr>"
        "fpt (Fin 680) (Fin 291)" 1] eval_paddle_f fp
    by simp
  have w: "snapsToContact \<lparr>fcollides = 1, fcontact = fpt (Fin 800) (Fin 496), fside = RIGHT\<rparr>
      (fpt (Fin 780) (Fin 476)) 2"
    using snap_to_contact [of
        "\<lparr>fposition = fpt (Fin 778) (Fin 475), fspeed = fpt (Fin 4) (Fin 2)\<rparr>"
        "\<lparr>pposition = fpt (Fin 700) (Fin 250), pscore = 0\<rparr>" "fpt (Fin 0) (Fin 0)"
        "\<lparr>fcollides = 1, fcontact = fpt (Fin 800) (Fin 496), fside = RIGHT\<rparr>"
        "fpt (Fin 780) (Fin 476)" 1] eval_wall_f t
    by simp
  from p w eval_paddle_f eval_wall_f fp t exactShift_int show ?thesis
    by (simp add: snapsToContact_def fpt_def is_finite_def)
qed

subsection \<open>The wall resolver and the boundaries\<close>

lemma testedVertex_f_leading: "testedVertex_f bl = leadingVertex_f bl"
  by (simp add: testedVertex_f_def leadingVertex_f_def wallHorizontalSide_f_def
      wallVerticalSide_f_def TOP_def RIGHT_def BOTTOM_def LEFT_def)

lemma single_not_NaN: "single neg r \<noteq> NaN"
  by (simp add: single_Fin)

lemma fadd_not_NaN:
  assumes "u \<noteq> NaN" and "is_finite v"
  shows "fadd u v \<noteq> NaN"
  using assms
  by (cases v) (auto simp: fadd_def add_g_def is_inf_def is_finite_def single_not_NaN)

lemma MIN_f_fmin:
  assumes "u \<noteq> NaN" and "v \<noteq> NaN"
  shows "fle (MIN_f u v) c \<longleftrightarrow> fle (fmin u v) c"
  using assms
  by (cases u; cases v) (auto simp: MIN_f_def fmin_def fle_def flt_def is_finite_def val_def)

lemma MAX_f_fmax:
  assumes "u \<noteq> NaN" and "v \<noteq> NaN"
  shows "fle c (MAX_f u v) \<longleftrightarrow> fle c (fmax u v)"
  using assms
  by (cases u; cases v) (auto simp: MAX_f_def fmax_def fle_def flt_def is_finite_def val_def)

lemma finite_not_NaN: "is_finite v \<Longrightarrow> v \<noteq> NaN"
  by (auto simp: is_finite_def)

lemma Ball_getVertex_f_not_NaN:
  assumes "finiteBall bl"
  shows "fx (Ball_getVertex_f bl k) \<noteq> NaN \<and> fy (Ball_getVertex_f bl k) \<noteq> NaN"
proof -
  from assms have p: "fx (fposition bl) \<noteq> NaN" "fy (fposition bl) \<noteq> NaN"
    by (simp_all add: finiteBall_def finite_not_NaN)
  have s: "is_finite F_BALL_SIZE" by (simp add: F_BALL_SIZE_def is_finite_def)
  show ?thesis
    using p fadd_not_NaN [OF p(1) s] fadd_not_NaN [OF p(2) s]
    by (simp add: Ball_getVertex_f_def fpt_def)
qed

lemma wallHorizontalCol_f_collides:
  assumes "finiteBall bl"
  shows "fcollides (wallHorizontalCol_f bl slope) \<noteq> 0 \<longleftrightarrow>
     sweptCrossesX_f bl (if fle (Fin 0) (fx (fspeed bl)) then F_WINDOW_WIDTH else Fin 0)"
proof -
  define u where "u = fx (Ball_getVertex_f bl (leadingVertex_f bl))"
  define n where "n = fadd u (fx (fspeed bl))"
  have u: "u \<noteq> NaN" unfolding u_def using Ball_getVertex_f_not_NaN [OF assms] by simp
  have n: "n \<noteq> NaN" unfolding n_def using u assms
    by (intro fadd_not_NaN) (simp_all add: finiteBall_def)
  show ?thesis
    by (simp add: wallHorizontalCol_f_def wallNextPos_f_def Let_def testedVertex_f_leading
        sweptCrossesX_f_def wallHorizontalBound_f_def noCollision_f_def fpt_def
        u_def [symmetric] n_def [symmetric] MIN_f_fmin [OF u n] MAX_f_fmax [OF u n])
qed

lemma wallVerticalCol_f_collides:
  assumes "finiteBall bl"
  shows "fcollides (wallVerticalCol_f bl slope) \<noteq> 0 \<longleftrightarrow>
     sweptCrossesY_f bl (if fle (Fin 0) (fy (fspeed bl)) then F_WINDOW_HEIGHT else Fin 0)"
proof -
  define u where "u = fy (Ball_getVertex_f bl (leadingVertex_f bl))"
  define n where "n = fadd u (fy (fspeed bl))"
  have u: "u \<noteq> NaN" unfolding u_def using Ball_getVertex_f_not_NaN [OF assms] by simp
  have n: "n \<noteq> NaN" unfolding n_def using u assms
    by (intro fadd_not_NaN) (simp_all add: finiteBall_def)
  show ?thesis
    by (simp add: wallVerticalCol_f_def wallNextPos_f_def Let_def testedVertex_f_leading
        sweptCrossesY_f_def wallVerticalBound_f_def noCollision_f_def fpt_def
        u_def [symmetric] n_def [symmetric] MIN_f_fmin [OF u n] MAX_f_fmax [OF u n])
qed

lemma wallHorizontalCol_f_contact:
  assumes "fcollides (wallHorizontalCol_f bl slope) \<noteq> 0"
  shows "(fside (wallHorizontalCol_f bl slope) = RIGHT \<and> fle (Fin 0) (fx (fspeed bl)) \<and>
            fx (fcontact (wallHorizontalCol_f bl slope)) = F_WINDOW_WIDTH) \<or>
         (fside (wallHorizontalCol_f bl slope) = LEFT \<and> \<not> fle (Fin 0) (fx (fspeed bl)) \<and>
            fx (fcontact (wallHorizontalCol_f bl slope)) = Fin 0)"
  using assms
  by (simp add: wallHorizontalCol_f_def Let_def wallHorizontalBound_f_def
      wallHorizontalSide_f_def noCollision_f_def fpt_def split: if_splits)

lemma wallVerticalCol_f_contact:
  assumes "fcollides (wallVerticalCol_f bl slope) \<noteq> 0"
  shows "(fside (wallVerticalCol_f bl slope) = BOTTOM \<and> fle (Fin 0) (fy (fspeed bl)) \<and>
            fy (fcontact (wallVerticalCol_f bl slope)) = F_WINDOW_HEIGHT) \<or>
         (fside (wallVerticalCol_f bl slope) = TOP \<and> \<not> fle (Fin 0) (fy (fspeed bl)) \<and>
            fy (fcontact (wallVerticalCol_f bl slope)) = Fin 0)"
  using assms
  by (simp add: wallVerticalCol_f_def Let_def wallVerticalBound_f_def
      wallVerticalSide_f_def noCollision_f_def fpt_def split: if_splits)

lemma fval_NaN_ops:
  "fadd NaN v = NaN" "fadd v NaN = NaN" "fsub NaN v = NaN" "fsub v NaN = NaN"
  "fdivide (Fin 0) (Fin 0) = NaN"
  by (simp_all add: fadd_def fsub_def fdivide_def fneg_def add_g_def div_g_def is_zero_def
      is_inf_def)

text \<open>
  C1, as stated, fails. The wall resolver tests only the two walls that lie ahead of the
  ball. A ball at (-22,100) with velocity (5,3) has the leading vertex 2 at (-2,120); its
  swept segment ends at (3,123) and crosses the boundary \<open>x = 0\<close>, and no collision is
  reported.
\<close>

theorem wall_collision_any_boundary_counterexample:
  "finiteBall \<lparr>fposition = fpt (Fin (- 22)) (Fin 100), fspeed = fpt (Fin 5) (Fin 3)\<rparr> \<and>
   \<not> feq (fx (fspeed \<lparr>fposition = fpt (Fin (- 22)) (Fin 100), fspeed = fpt (Fin 5) (Fin 3)\<rparr>))
         (Fin 0) \<and>
   leadingVertex_f \<lparr>fposition = fpt (Fin (- 22)) (Fin 100), fspeed = fpt (Fin 5) (Fin 3)\<rparr> = 2 \<and>
   Ball_getVertex_f \<lparr>fposition = fpt (Fin (- 22)) (Fin 100), fspeed = fpt (Fin 5) (Fin 3)\<rparr> 2
     = fpt (Fin (- 2)) (Fin 120) \<and>
   fadd (Fin (- 2)) (Fin 5) = Fin 3 \<and>
   sweptCrossesX_f \<lparr>fposition = fpt (Fin (- 22)) (Fin 100), fspeed = fpt (Fin 5) (Fin 3)\<rparr>
     (Fin 0) \<and>
   sweptCrossesArena_f
     \<lparr>fposition = fpt (Fin (- 22)) (Fin 100), fspeed = fpt (Fin 5) (Fin 3)\<rparr> \<and>
   getWallCollision_f \<lparr>fposition = fpt (Fin (- 22)) (Fin 100), fspeed = fpt (Fin 5) (Fin 3)\<rparr>
     (fpt (Fin 0) (Fin 0))
     = (\<lparr>fcollides = 0, fcontact = fpt (Fin 0) (Fin 0), fside = TOP\<rparr>, fpt (Fin 0) (Fin 0))"
  by (simp add: fmodel_defs fin_eval Let_def finiteBall_def is_finite_def leadingVertex_f_def
      sweptCrossesX_f_def sweptCrossesArena_f_def fmin_def fmax_def)

text \<open>
  C1, amended. For a ball whose position and velocity are finite and whose velocity has
  a non-zero x-component, a collision is reported exactly when the swept segment of the
  leading vertex crosses a boundary that lies ahead: \<open>x = 800\<close> when moving right and
  \<open>x = 0\<close> when moving left, \<open>y = 600\<close> when moving down (or not vertically at all)
  and \<open>y = 0\<close> when moving up. The segment ends at the next position of the vertex as
  the program computes it, the rounded sum of vertex and velocity, which can lie on a
  boundary that the exact sum does not reach. The reported contact point lies on the
  boundary of the reported side, and the swept segment crosses that boundary. This
  includes the states in which the other coordinate of the contact point is computed as
  0/0 and is a NaN.
\<close>

theorem wall_collision_iff_crosses_ahead:
  assumes "finiteBall bl" and "\<not> feq (fx (fspeed bl)) (Fin 0)"
  shows "(fcollides (fst (getWallCollision_f bl np)) \<noteq> 0 \<longleftrightarrow> sweptCrossesAhead_f bl) \<and>
         (fcollides (fst (getWallCollision_f bl np)) \<noteq> 0 \<longrightarrow>
            (fside (fst (getWallCollision_f bl np)) = LEFT \<and>
               fx (fcontact (fst (getWallCollision_f bl np))) = Fin 0 \<and>
               sweptCrossesX_f bl (Fin 0)) \<or>
            (fside (fst (getWallCollision_f bl np)) = RIGHT \<and>
               fx (fcontact (fst (getWallCollision_f bl np))) = F_WINDOW_WIDTH \<and>
               sweptCrossesX_f bl F_WINDOW_WIDTH) \<or>
            (fside (fst (getWallCollision_f bl np)) = TOP \<and>
               fy (fcontact (fst (getWallCollision_f bl np))) = Fin 0 \<and>
               sweptCrossesY_f bl (Fin 0)) \<or>
            (fside (fst (getWallCollision_f bl np)) = BOTTOM \<and>
               fy (fcontact (fst (getWallCollision_f bl np))) = F_WINDOW_HEIGHT \<and>
               sweptCrossesY_f bl F_WINDOW_HEIGHT))"
proof -
  define slope where "slope = fdivide (fy (fspeed bl)) (fx (fspeed bl))"
  define hc where "hc = wallHorizontalCol_f bl slope"
  define vc where "vc = wallVerticalCol_f bl slope"
  define c where "c = closestWallCollision_f (Ball_getVertex_f bl (testedVertex_f bl)) hc vc"
  have res: "fst (getWallCollision_f bl np) = c"
    using assms(2) by (simp add: getWallCollision_f_def Let_def slope_def hc_def vc_def c_def)
  have hcol: "fcollides hc \<noteq> 0 \<longleftrightarrow>
      sweptCrossesX_f bl (if fle (Fin 0) (fx (fspeed bl)) then F_WINDOW_WIDTH else Fin 0)"
    unfolding hc_def using assms(1) by (rule wallHorizontalCol_f_collides)
  have vcol: "fcollides vc \<noteq> 0 \<longleftrightarrow>
      sweptCrossesY_f bl (if fle (Fin 0) (fy (fspeed bl)) then F_WINDOW_HEIGHT else Fin 0)"
    unfolding vc_def using assms(1) by (rule wallVerticalCol_f_collides)
  have hcon: "fcollides hc \<noteq> 0 \<Longrightarrow>
      (fside hc = RIGHT \<and> fle (Fin 0) (fx (fspeed bl)) \<and> fx (fcontact hc) = F_WINDOW_WIDTH) \<or>
      (fside hc = LEFT \<and> \<not> fle (Fin 0) (fx (fspeed bl)) \<and> fx (fcontact hc) = Fin 0)"
    unfolding hc_def by (rule wallHorizontalCol_f_contact)
  have vcon: "fcollides vc \<noteq> 0 \<Longrightarrow>
      (fside vc = BOTTOM \<and> fle (Fin 0) (fy (fspeed bl)) \<and> fy (fcontact vc) = F_WINDOW_HEIGHT) \<or>
      (fside vc = TOP \<and> \<not> fle (Fin 0) (fy (fspeed bl)) \<and> fy (fcontact vc) = Fin 0)"
    unfolding vc_def by (rule wallVerticalCol_f_contact)
  have cases: "c = hc \<and> fcollides hc \<noteq> 0 \<or> c = vc \<and> fcollides vc \<noteq> 0 \<or>
      c = noCollision_f \<and> fcollides hc = 0 \<and> fcollides vc = 0"
    unfolding c_def by (rule closestWallCollision_f_cases)
  have iff: "fcollides c \<noteq> 0 \<longleftrightarrow> sweptCrossesAhead_f bl"
    using cases hcol vcol by (auto simp: sweptCrossesAhead_f_def noCollision_f_def)
  have con: "fcollides c \<noteq> 0 \<longrightarrow>
      (fside c = LEFT \<and> fx (fcontact c) = Fin 0 \<and> sweptCrossesX_f bl (Fin 0)) \<or>
      (fside c = RIGHT \<and> fx (fcontact c) = F_WINDOW_WIDTH \<and>
         sweptCrossesX_f bl F_WINDOW_WIDTH) \<or>
      (fside c = TOP \<and> fy (fcontact c) = Fin 0 \<and> sweptCrossesY_f bl (Fin 0)) \<or>
      (fside c = BOTTOM \<and> fy (fcontact c) = F_WINDOW_HEIGHT \<and>
         sweptCrossesY_f bl F_WINDOW_HEIGHT)"
  proof
    assume nz: "fcollides c \<noteq> 0"
    from cases nz consider "c = hc" "fcollides hc \<noteq> 0" | "c = vc" "fcollides vc \<noteq> 0"
      by (auto simp: noCollision_f_def)
    then show "(fside c = LEFT \<and> fx (fcontact c) = Fin 0 \<and> sweptCrossesX_f bl (Fin 0)) \<or>
      (fside c = RIGHT \<and> fx (fcontact c) = F_WINDOW_WIDTH \<and>
         sweptCrossesX_f bl F_WINDOW_WIDTH) \<or>
      (fside c = TOP \<and> fy (fcontact c) = Fin 0 \<and> sweptCrossesY_f bl (Fin 0)) \<or>
      (fside c = BOTTOM \<and> fy (fcontact c) = F_WINDOW_HEIGHT \<and>
         sweptCrossesY_f bl F_WINDOW_HEIGHT)"
    proof cases
      case 1
      with hcon hcol show ?thesis by (auto split: if_splits)
    next
      case 2
      with vcon vcol show ?thesis by (auto split: if_splits)
    qed
  qed
  from iff con show ?thesis unfolding res by blast
qed

lemma fl32_rounds_to_800: "fl 24 (- 126) (52428799 / 65536) = 800"
proof -
  have "fl 24 (- 126) (52428799 / 65536)
      = of_int (round_even ((52428799 / 65536) / 2 powi (max 9 (- 126) - int 24 + 1)))
          * 2 powi (max 9 (- 126) - int 24 + 1)"
    by (rule fl_binade) simp_all
  also have "\<dots> = 800"
    by (simp add: round_even_def Let_def)
  finally show ?thesis .
qed

lemma v39_facts:
  "fl 24 (- 126) (12697599 / 16384) = 12697599 / 16384"
  "fl 24 (- 126) (327683 / 65536) = 327683 / 65536"
  "fl 24 (- 126) (13025279 / 16384) = 13025279 / 16384"
  using fl32_dyadic [of 12697599 14] fl32_dyadic [of 327683 16] fl32_dyadic [of 13025279 14]
  by simp_all

lemma eval_wall_rounding:
  "getWallCollision_f
     \<lparr>fposition = fpt (Fin (12697599 / 16384)) (Fin 100),
      fspeed = fpt (Fin (327683 / 65536)) (Fin 0)\<rparr> (fpt (Fin 0) (Fin 0))
   = (\<lparr>fcollides = 1, fcontact = fpt (Fin 800) (Fin 120), fside = RIGHT\<rparr>,
      fpt (Fin 780) (Fin 100))"
  by (simp add: fmodel_defs fin_eval Let_def v39_facts fl32_rounds_to_800)

lemma eval_wall_zero_slope:
  "getWallCollision_f \<lparr>fposition = fpt (Fin 400) (Fin 580), fspeed = fpt (Fin 5) (Fin 0)\<rparr>
     (fpt (Fin 0) (Fin 0))
   = (\<lparr>fcollides = 1, fcontact = fpt NaN (Fin 600), fside = BOTTOM\<rparr>, fpt NaN (Fin 580))"
  by (simp add: fmodel_defs fin_eval Let_def fval_NaN_ops)

theorem wall_collision_iff_crosses_ahead_witness:
  "finiteBall \<lparr>fposition = fpt (Fin (12697599 / 16384)) (Fin 100),
               fspeed = fpt (Fin (327683 / 65536)) (Fin 0)\<rparr> \<and>
   is_float32 (Fin (12697599 / 16384)) \<and> is_float32 (Fin (327683 / 65536)) \<and>
   \<not> feq (Fin (327683 / 65536)) (Fin 0) \<and>
   getWallCollision_f
     \<lparr>fposition = fpt (Fin (12697599 / 16384)) (Fin 100),
      fspeed = fpt (Fin (327683 / 65536)) (Fin 0)\<rparr> (fpt (Fin 0) (Fin 0))
     = (\<lparr>fcollides = 1, fcontact = fpt (Fin 800) (Fin 120), fside = RIGHT\<rparr>,
        fpt (Fin 780) (Fin 100)) \<and>
   sweptCrossesAhead_f
     \<lparr>fposition = fpt (Fin (12697599 / 16384)) (Fin 100),
      fspeed = fpt (Fin (327683 / 65536)) (Fin 0)\<rparr> \<and>
   fadd (Fin (12697599 / 16384)) (Fin 20) = Fin (13025279 / 16384) \<and>
   fadd (Fin (13025279 / 16384)) (Fin (327683 / 65536)) = Fin 800 \<and>
   13025279 / 16384 + 327683 / 65536 < (800 :: real) \<and>
   finiteBall \<lparr>fposition = fpt (Fin 400) (Fin 580), fspeed = fpt (Fin 5) (Fin 0)\<rparr> \<and>
   getWallCollision_f \<lparr>fposition = fpt (Fin 400) (Fin 580), fspeed = fpt (Fin 5) (Fin 0)\<rparr>
     (fpt (Fin 0) (Fin 0))
     = (\<lparr>fcollides = 1, fcontact = fpt NaN (Fin 600), fside = BOTTOM\<rparr>, fpt NaN (Fin 580)) \<and>
   sweptCrossesAhead_f
     \<lparr>fposition = fpt (Fin 400) (Fin 580), fspeed = fpt (Fin 5) (Fin 0)\<rparr> \<and>
   sweptCrossesY_f
     \<lparr>fposition = fpt (Fin 400) (Fin 580), fspeed = fpt (Fin 5) (Fin 0)\<rparr> F_WINDOW_HEIGHT"
proof -
  have f1: "finiteBall \<lparr>fposition = fpt (Fin (12697599 / 16384)) (Fin 100),
               fspeed = fpt (Fin (327683 / 65536)) (Fin 0)\<rparr>"
    by (simp add: finiteBall_def is_finite_def fpt_def)
  have n1: "\<not> feq (fx (fspeed \<lparr>fposition = fpt (Fin (12697599 / 16384)) (Fin 100),
               fspeed = fpt (Fin (327683 / 65536)) (Fin 0)\<rparr>)) (Fin 0)"
    by (simp add: fpt_def fcmp_Fin)
  have f2: "finiteBall \<lparr>fposition = fpt (Fin 400) (Fin 580), fspeed = fpt (Fin 5) (Fin 0)\<rparr>"
    by (simp add: finiteBall_def is_finite_def fpt_def)
  have n2: "\<not> feq (fx (fspeed \<lparr>fposition = fpt (Fin 400) (Fin 580),
               fspeed = fpt (Fin 5) (Fin 0)\<rparr>)) (Fin 0)"
    by (simp add: fpt_def fcmp_Fin)
  have fl: "is_float32 (Fin (12697599 / 16384)) \<and> is_float32 (Fin (327683 / 65536))"
    by (simp add: is_float32_def v39_facts)
  have ops: "fadd (Fin (12697599 / 16384)) (Fin 20) = Fin (13025279 / 16384) \<and>
      fadd (Fin (13025279 / 16384)) (Fin (327683 / 65536)) = Fin 800"
    by (simp add: fin_eval v39_facts fl32_rounds_to_800)
  have n1': "\<not> feq (Fin (327683 / 65536)) (Fin 0)" by (simp add: fcmp_Fin)
  have lt: "13025279 / 16384 + 327683 / 65536 < (800 :: real)" by simp
  have s1: "sweptCrossesAhead_f
     \<lparr>fposition = fpt (Fin (12697599 / 16384)) (Fin 100),
      fspeed = fpt (Fin (327683 / 65536)) (Fin 0)\<rparr>"
    using wall_collision_iff_crosses_ahead [OF f1 n1, of "fpt (Fin 0) (Fin 0)"]
    by (simp add: eval_wall_rounding)
  have s2: "sweptCrossesAhead_f
       \<lparr>fposition = fpt (Fin 400) (Fin 580), fspeed = fpt (Fin 5) (Fin 0)\<rparr> \<and>
     sweptCrossesY_f
       \<lparr>fposition = fpt (Fin 400) (Fin 580), fspeed = fpt (Fin 5) (Fin 0)\<rparr> F_WINDOW_HEIGHT"
    using wall_collision_iff_crosses_ahead [OF f2 n2, of "fpt (Fin 0) (Fin 0)"]
    by (simp add: eval_wall_zero_slope TOP_def RIGHT_def BOTTOM_def LEFT_def)
  from f1 fl n1' eval_wall_rounding s1 ops lt f2 eval_wall_zero_slope s2 show ?thesis
    by simp
qed

end
